theory Spec2Isabelle
  imports Main
begin

section \<open>Exceptions\<close>

text \<open>
  The exceptions of \<^verbatim>\<open>dfvfs/helpers/volume_scanner.py\<close> as values. \<open>ScannerError\<close> and
  \<open>UserAbort\<close> are the two errors of the scanner's own taxonomy (\<^verbatim>\<open>errors.ScannerError\<close>,
  \<^verbatim>\<open>errors.UserAbort\<close>), each with its message. The others are what the interpreter or a
  collaborator raises: \<open>KeyboardInterrupt\<close> from a mediator, \<open>TypeError\<close> from iterating
  \<^verbatim>\<open>None\<close>, \<open>AttributeError\<close> from reading an attribute of \<^verbatim>\<open>None\<close>, \<open>ValueError\<close> and
  \<open>BackEndError\<close> from the source scanner, \<open>OtherException\<close> for anything else.
\<close>

datatype error =
    ScannerError string
  | UserAbort string
  | KeyboardInterrupt
  | TypeError
  | AttributeError
  | ValueError string
  | BackEndError string
  | OtherException string

section \<open>Path specifications, volume systems, mediator\<close>

text \<open>
  The type indicators the scanner compares against (\<^verbatim>\<open>definitions.TYPE_INDICATOR_*\<close>); every
  other indicator is \<open>TYPE_INDICATOR_OTHER\<close> with its name.
\<close>

datatype type_indicator =
    TYPE_INDICATOR_APFS_CONTAINER
  | TYPE_INDICATOR_TSK
  | TYPE_INDICATOR_TSK_PARTITION
  | TYPE_INDICATOR_VSHADOW
  | TYPE_INDICATOR_OTHER string

text \<open>
  A path specification: its type indicator, its \<^verbatim>\<open>location\<close> attribute (absent on types
  that have none) and its parent. Equality is structural over the whole chain.
\<close>

datatype path_spec =
  PathSpec (type_indicator: type_indicator) (location: "string option")
    (parent: "path_spec option")

text \<open>\<^verbatim>\<open>path_spec_factory.Factory.NewPathSpec(type_indicator, location=..., parent=...)\<close>.\<close>

definition NewPathSpec :: "type_indicator \<Rightarrow> string \<Rightarrow> path_spec option \<Rightarrow> path_spec" where
  "NewPathSpec ti loc par = PathSpec ti (Some loc) par"

datatype volume = Volume string

text \<open>
  An opened volume system, as far as the scanner looks at it: \<open>GetVolumeIdentifiers\<close> is what
  \<^verbatim>\<open>source_scanner.GetVolumeIdentifiers(volume_system)\<close> returns, \<open>GetVolumeByIdentifier\<close> is
  the lookup, \<open>None\<close> where the Python raises \<^verbatim>\<open>KeyError\<close> or returns no volume (the scanner
  treats both alike).
\<close>

record volume_system =
  GetVolumeIdentifiers :: "string list"
  GetVolumeByIdentifier :: "string \<Rightarrow> volume option"

datatype volume_system_kind = APFSVolumeSystem | TSKVolumeSystem | VShadowVolumeSystem

text \<open>
  A volume identifier as a mediator may hand it back: \<^verbatim>\<open>list[int|str]\<close>.
\<close>

datatype volume_identifier = IntId int | StrId string

text \<open>
  What a mediator's selection method does: it raises (\<open>Inl\<close>), returns \<^verbatim>\<open>None\<close>
  (\<open>Inr None\<close>) or returns a list (\<open>Inr (Some ids)\<close>).
\<close>

type_synonym selection = "error + volume_identifier list option"

type_synonym node_id = nat

text \<open>
  A scan node (\<^verbatim>\<open>SourceScanNode\<close>): its path specification (\<open>None\<close> when unset), its type
  indicator, the two classification flags and the references to its sub nodes, in
  discovery order.
\<close>

record scan_node =
  path_spec :: "path_spec option"
  node_type_indicator :: type_indicator
  IsVolumeSystemRoot :: bool
  IsFileSystem :: bool
  sub_nodes :: "node_id list"

datatype source_type =
    SOURCE_TYPE_DIRECTORY
  | SOURCE_TYPE_FILE
  | SOURCE_TYPE_STORAGE_MEDIA_DEVICE
  | SOURCE_TYPE_STORAGE_MEDIA_IMAGE

text \<open>
  The scan context (\<^verbatim>\<open>SourceScannerContext\<close>). Scan nodes are mutable objects shared
  between the context and the scanner's local variables, so they live in a store
  \<open>nodes\<close>, addressed by \<open>node_id\<close>; the scanner holds references.
\<close>

record scan_context =
  nodes :: "node_id \<Rightarrow> scan_node"
  GetRootScanNode :: "node_id option"
  locked_scan_nodes :: "path_spec set"
  source_type :: "source_type option"

type_synonym credentials = "string list"

text \<open>
  The mediator (\<^verbatim>\<open>VolumeScannerMediator\<close>): the three selection methods and the unlock
  method, which may change the scan context (it unlocks through the source scanner).
  What a method answers is a function of the arguments of the call.
\<close>

record mediator =
  med_GetAPFSVolumeIdentifiers :: "volume_system \<Rightarrow> string list \<Rightarrow> selection"
  med_GetPartitionIdentifiers :: "volume_system \<Rightarrow> string list \<Rightarrow> selection"
  med_GetVSSStoreIdentifiers :: "volume_system \<Rightarrow> string list \<Rightarrow> selection"
  med_UnlockEncryptedVolume ::
    "scan_context \<Rightarrow> node_id \<Rightarrow> credentials \<Rightarrow> error + (bool \<times> scan_context)"

text \<open>
  The collaborators of a \<^verbatim>\<open>VolumeScanner\<close> whose code is elsewhere, as parameters:
  \<^verbatim>\<open>os.path.exists\<close>, the source scanner's \<^verbatim>\<open>OpenSourcePath\<close> and \<^verbatim>\<open>Scan\<close>, opening a volume
  system of a kind on a path specification, the credentials manager, and the
  configured mediator (\<open>None\<close> when the scanner was built without one).
\<close>

record env =
  path_exists :: "string \<Rightarrow> bool"
  OpenSourcePath :: "string \<Rightarrow> scan_context"
  Scan :: "scan_context \<Rightarrow> path_spec option \<Rightarrow> error + scan_context"
  OpenVolumeSystem :: "volume_system_kind \<Rightarrow> path_spec \<Rightarrow> error + volume_system"
  GetCredentials :: "path_spec \<Rightarrow> credentials option"
  env_mediator :: "mediator option"

text \<open>The calls to collaborators, in the order they happen.\<close>

datatype event =
    EvOpenVolumeSystem volume_system_kind path_spec
  | EvGetAPFSVolumeIdentifiers "string list"
  | EvGetPartitionIdentifiers "string list"
  | EvGetVSSStoreIdentifiers "string list"
  | EvUnlockEncryptedVolume node_id
  | EvScan "path_spec option"

fun is_mediator_event :: "event \<Rightarrow> bool" where
  "is_mediator_event (EvOpenVolumeSystem k ps) = False"
| "is_mediator_event (EvGetAPFSVolumeIdentifiers ids) = True"
| "is_mediator_event (EvGetPartitionIdentifiers ids) = True"
| "is_mediator_event (EvGetVSSStoreIdentifiers ids) = True"
| "is_mediator_event (EvUnlockEncryptedVolume n) = True"
| "is_mediator_event (EvScan ps) = False"

fun is_volume_system_event :: "event \<Rightarrow> bool" where
  "is_volume_system_event (EvOpenVolumeSystem k ps) = True"
| "is_volume_system_event (EvGetAPFSVolumeIdentifiers ids) = False"
| "is_volume_system_event (EvGetPartitionIdentifiers ids) = False"
| "is_volume_system_event (EvGetVSSStoreIdentifiers ids) = False"
| "is_volume_system_event (EvUnlockEncryptedVolume n) = False"
| "is_volume_system_event (EvScan ps) = False"

section \<open>Python built-ins\<close>

text \<open>\<^verbatim>\<open>s.startswith(p)\<close>.\<close>

definition startswith :: "string \<Rightarrow> string \<Rightarrow> bool" where
  "startswith s p = (take (length p) s = p)"

text \<open>\<^verbatim>\<open>'{0:d}'.format(n)\<close>: the decimal digits, with a minus sign below zero.\<close>

definition digit_char :: "nat \<Rightarrow> char" where
  "digit_char d = ''0123456789'' ! d"

fun format_nat :: "nat \<Rightarrow> string" where
  "format_nat n = (if n < 10 then [digit_char n] else format_nat (n div 10) @ [digit_char (n mod 10)])"

definition format_d :: "int \<Rightarrow> string" where
  "format_d n = (if n < 0 then CHR ''-'' # format_nat (nat (- n)) else format_nat (nat n))"

text \<open>
  \<^verbatim>\<open>int(s, 10)\<close> of Python 3 on ASCII text: white space (tab, line feed, vertical tab,
  form feed, carriage return, space) is stripped on both sides, one sign is allowed,
  then come decimal digits, with single underscores allowed between digits. \<open>None\<close> is
  \<^verbatim>\<open>ValueError\<close>.
\<close>

definition isspace :: "char \<Rightarrow> bool" where
  "isspace c = (c \<in> set [CHR 0x09, CHR 0x0A, CHR 0x0B, CHR 0x0C, CHR 0x0D, CHR 0x20])"

definition strip :: "string \<Rightarrow> string" where
  "strip s = rev (dropWhile isspace (rev (dropWhile isspace s)))"

definition digit_value :: "char \<Rightarrow> nat option" where
  "digit_value c =
     map_of [(CHR ''0'', 0), (CHR ''1'', 1), (CHR ''2'', 2), (CHR ''3'', 3), (CHR ''4'', 4),
             (CHR ''5'', 5), (CHR ''6'', 6), (CHR ''7'', 7), (CHR ''8'', 8), (CHR ''9'', 9)] c"

fun int_digits :: "string \<Rightarrow> nat \<Rightarrow> nat option" where
  "int_digits [] acc = Some acc"
| "int_digits (c # cs) acc =
     (if c = CHR ''_'' then
        (case cs of
           [] \<Rightarrow> None
         | d # ds \<Rightarrow>
             (case digit_value d of
                None \<Rightarrow> None
              | Some v \<Rightarrow> int_digits ds (acc * 10 + v)))
      else
        (case digit_value c of
           None \<Rightarrow> None
         | Some v \<Rightarrow> int_digits cs (acc * 10 + v)))"

definition int_unsigned :: "string \<Rightarrow> nat option" where
  "int_unsigned s =
     (case s of
        [] \<Rightarrow> None
      | d # ds \<Rightarrow> (case digit_value d of None \<Rightarrow> None | Some v \<Rightarrow> int_digits ds v))"

definition int_base10 :: "string \<Rightarrow> int option" where
  "int_base10 s =
     (case strip s of
        [] \<Rightarrow> None
      | c # cs \<Rightarrow>
          if c = CHR ''-'' then map_option (\<lambda>n. - int n) (int_unsigned cs)
          else if c = CHR ''+'' then map_option int (int_unsigned cs)
          else map_option int (int_unsigned (c # cs)))"

section \<open>Identifier normalization\<close>

text \<open>
  The body of the loop of \<^verbatim>\<open>_NormalizedVolumeIdentifiers\<close> up to the lookup: an integer is
  formatted behind the prefix; a string that does not start with the prefix is parsed
  as a decimal integer and, when that succeeds, formatted behind the prefix; every
  other string stays as it is.
\<close>

fun rewrite_identifier :: "string \<Rightarrow> volume_identifier \<Rightarrow> string" where
  "rewrite_identifier prefix (IntId n) = prefix @ format_d n"
| "rewrite_identifier prefix (StrId s) =
     (if \<not> startswith s prefix then
        (case int_base10 s of
           Some n \<Rightarrow> prefix @ format_d n
         | None \<Rightarrow> s)
      else s)"

fun normalize_loop ::
  "volume_system \<Rightarrow> string \<Rightarrow> volume_identifier list \<Rightarrow> string list \<Rightarrow> error + string list" where
  "normalize_loop vs prefix [] normalized_volume_identifiers =
     Inr normalized_volume_identifiers"
| "normalize_loop vs prefix (x # xs) normalized_volume_identifiers =
     (let volume_identifier = rewrite_identifier prefix x in
      case GetVolumeByIdentifier vs volume_identifier of
        None \<Rightarrow>
          Inl (ScannerError (''Volume missing for identifier: '' @ volume_identifier @ ''.''))
      | Some volume \<Rightarrow>
          normalize_loop vs prefix xs (normalized_volume_identifiers @ [volume_identifier]))"

text \<open>
  \<^verbatim>\<open>_NormalizedVolumeIdentifiers(volume_system, volume_identifiers, prefix)\<close>. The argument
  is \<open>None\<close> when the mediator returned \<^verbatim>\<open>None\<close>: the \<^verbatim>\<open>for\<close> statement then raises
  \<^verbatim>\<open>TypeError\<close>.
\<close>

definition NormalizedVolumeIdentifiers ::
  "volume_system \<Rightarrow> volume_identifier list option \<Rightarrow> string \<Rightarrow> error + string list" where
  "NormalizedVolumeIdentifiers vs volume_identifiers prefix =
     (case volume_identifiers of
        None \<Rightarrow> Inl TypeError
      | Some ids \<Rightarrow> normalize_loop vs prefix ids [])"

section \<open>Identifier resolution\<close>

text \<open>
  \<^verbatim>\<open>if not scan_node or not scan_node.path_spec\<close>: the path specification of a node that
  is there and has one.
\<close>

definition valid_path_spec :: "scan_node option \<Rightarrow> path_spec option" where
  "valid_path_spec scan_node = (case scan_node of None \<Rightarrow> None | Some n \<Rightarrow> path_spec n)"

text \<open>
  A mediator call inside \<^verbatim>\<open>try: ... except KeyboardInterrupt: raise errors.UserAbort(...)\<close>,
  followed by the normalization of what it returned.
\<close>

definition select_and_normalize ::
  "selection \<Rightarrow> volume_system \<Rightarrow> string \<Rightarrow> error + string list" where
  "select_and_normalize sel vs prefix =
     (case sel of
        Inl KeyboardInterrupt \<Rightarrow> Inl (UserAbort ''File system scan aborted.'')
      | Inl e \<Rightarrow> Inl e
      | Inr volume_identifiers \<Rightarrow> NormalizedVolumeIdentifiers vs volume_identifiers prefix)"

text \<open>\<^verbatim>\<open>_GetAPFSVolumeIdentifiers(scan_node)\<close>; the second component is the trace.\<close>

definition GetAPFSVolumeIdentifiers ::
  "env \<Rightarrow> scan_node option \<Rightarrow> event list \<Rightarrow> (error + string list) \<times> event list" where
  "GetAPFSVolumeIdentifiers env scan_node tr =
     (case valid_path_spec scan_node of
        None \<Rightarrow> (Inl (ScannerError ''Invalid scan node.''), tr)
      | Some ps \<Rightarrow>
          (case OpenVolumeSystem env APFSVolumeSystem ps of
             Inl e \<Rightarrow> (Inl e, tr @ [EvOpenVolumeSystem APFSVolumeSystem ps])
           | Inr vs \<Rightarrow>
               (let tr1 = tr @ [EvOpenVolumeSystem APFSVolumeSystem ps];
                    volume_identifiers = GetVolumeIdentifiers vs in
                if volume_identifiers = [] then (Inr [], tr1)
                else if length volume_identifiers > 1 then
                  (case env_mediator env of
                     None \<Rightarrow>
                       (Inl (ScannerError
                          (''Unable to proceed. APFS volumes found but no mediator to '' @
                           ''determine how they should be used.'')), tr1)
                   | Some m \<Rightarrow>
                       (select_and_normalize
                          (med_GetAPFSVolumeIdentifiers m vs volume_identifiers) vs ''apfs'',
                        tr1 @ [EvGetAPFSVolumeIdentifiers volume_identifiers]))
                else
                  (NormalizedVolumeIdentifiers vs (Some (map StrId volume_identifiers)) ''apfs'',
                   tr1))))"

text \<open>\<^verbatim>\<open>_GetTSKPartitionIdentifiers(scan_node)\<close>.\<close>

definition GetTSKPartitionIdentifiers ::
  "env \<Rightarrow> scan_node option \<Rightarrow> event list \<Rightarrow> (error + string list) \<times> event list" where
  "GetTSKPartitionIdentifiers env scan_node tr =
     (case valid_path_spec scan_node of
        None \<Rightarrow> (Inl (ScannerError ''Invalid scan node.''), tr)
      | Some ps \<Rightarrow>
          (case OpenVolumeSystem env TSKVolumeSystem ps of
             Inl e \<Rightarrow> (Inl e, tr @ [EvOpenVolumeSystem TSKVolumeSystem ps])
           | Inr vs \<Rightarrow>
               (let tr1 = tr @ [EvOpenVolumeSystem TSKVolumeSystem ps];
                    volume_identifiers = GetVolumeIdentifiers vs in
                if volume_identifiers = [] then (Inr [], tr1)
                else if length volume_identifiers = 1 then (Inr volume_identifiers, tr1)
                else
                  (case env_mediator env of
                     None \<Rightarrow>
                       (Inl (ScannerError
                          (''Unable to proceed. Partitions found but no mediator to determine '' @
                           ''how they should be used.'')), tr1)
                   | Some m \<Rightarrow>
                       (select_and_normalize
                          (med_GetPartitionIdentifiers m vs volume_identifiers) vs ''p'',
                        tr1 @ [EvGetPartitionIdentifiers volume_identifiers])))))"

text \<open>\<^verbatim>\<open>_GetVSSStoreIdentifiers(scan_node)\<close>.\<close>

definition GetVSSStoreIdentifiers ::
  "env \<Rightarrow> scan_node option \<Rightarrow> event list \<Rightarrow> (error + string list) \<times> event list" where
  "GetVSSStoreIdentifiers env scan_node tr =
     (case valid_path_spec scan_node of
        None \<Rightarrow> (Inl (ScannerError ''Invalid scan node.''), tr)
      | Some ps \<Rightarrow>
          (case OpenVolumeSystem env VShadowVolumeSystem ps of
             Inl e \<Rightarrow> (Inl e, tr @ [EvOpenVolumeSystem VShadowVolumeSystem ps])
           | Inr vs \<Rightarrow>
               (let tr1 = tr @ [EvOpenVolumeSystem VShadowVolumeSystem ps];
                    volume_identifiers = GetVolumeIdentifiers vs in
                if volume_identifiers = [] then (Inr [], tr1)
                else
                  (case env_mediator env of
                     None \<Rightarrow>
                       (Inl (ScannerError
                          (''Unable to proceed. VSS stores found but no mediator to determine '' @
                           ''how they should be used.'')), tr1)
                   | Some m \<Rightarrow>
                       (select_and_normalize
                          (med_GetVSSStoreIdentifiers m vs volume_identifiers) vs ''vss'',
                        tr1 @ [EvGetVSSStoreIdentifiers volume_identifiers])))))"

section \<open>The scan\<close>

text \<open>
  What the scanner threads through a scan: the scan context, which the source scanner
  and the mediator change, the list \<^verbatim>\<open>base_path_specs\<close> that \<^verbatim>\<open>GetBasePathSpecs\<close> creates and
  the scan methods append to, and the trace of calls to collaborators. Neither the
  source scanner nor the mediator is handed the list.
\<close>

record scan_state =
  ctx :: scan_context
  base_path_specs :: "path_spec list"
  trace :: "event list"

text \<open>
  Modelled from the spec: \<^verbatim>\<open>SourceScannerContext.IsLockedScanNode(path_spec)\<close>, whose code
  is not part of the sources at hand. The context owns "a set of PathSpecs currently
  locked"; the query is membership in it.
\<close>

definition IsLockedScanNode :: "scan_context \<Rightarrow> path_spec option \<Rightarrow> bool" where
  "IsLockedScanNode c ps = (case ps of None \<Rightarrow> False | Some p \<Rightarrow> p \<in> locked_scan_nodes c)"

text \<open>
  Modelled from the spec: \<^verbatim>\<open>SourceScanNode.GetSubNodeByLocation(location)\<close>, whose code is
  not part of the sources at hand: "locate the child node at location", a query over
  the current tree. It is the first sub node, in discovery order, whose path
  specification has that location, and \<^verbatim>\<open>None\<close> when there is none.
\<close>

definition GetSubNodeByLocation :: "scan_context \<Rightarrow> node_id \<Rightarrow> string \<Rightarrow> node_id option" where
  "GetSubNodeByLocation c n loc =
     find (\<lambda>k. case path_spec (nodes c k) of None \<Rightarrow> False | Some p \<Rightarrow> location p = Some loc)
       (sub_nodes (nodes c n))"

text \<open>
  The text of a type indicator in a message. The strings are those of
  \<^verbatim>\<open>dfvfs.lib.definitions\<close>; no statement below depends on them.
\<close>

fun type_indicator_str :: "type_indicator \<Rightarrow> string" where
  "type_indicator_str TYPE_INDICATOR_APFS_CONTAINER = ''APFS_CONTAINER''"
| "type_indicator_str TYPE_INDICATOR_TSK = ''TSK''"
| "type_indicator_str TYPE_INDICATOR_TSK_PARTITION = ''TSK_PARTITION''"
| "type_indicator_str TYPE_INDICATOR_VSHADOW = ''VSHADOW''"
| "type_indicator_str (TYPE_INDICATOR_OTHER s) = s"

text \<open>
  \<^verbatim>\<open>_ScanEncryptedVolume(scan_context, scan_node)\<close>. The mediator's unlock is not inside a
  \<^verbatim>\<open>try\<close>: whatever it raises propagates as it is.
\<close>

definition ScanEncryptedVolume ::
  "env \<Rightarrow> node_id option \<Rightarrow> scan_state \<Rightarrow> (error + unit) \<times> scan_state" where
  "ScanEncryptedVolume env scan_node st =
     (case scan_node of
        None \<Rightarrow> (Inl (ScannerError ''Invalid or missing scan node.''), st)
      | Some n \<Rightarrow>
          (case path_spec (nodes (ctx st) n) of
             None \<Rightarrow> (Inl (ScannerError ''Invalid or missing scan node.''), st)
           | Some ps \<Rightarrow>
               (case GetCredentials env ps of
                  None \<Rightarrow> (Inl (ScannerError ''Missing credentials for scan node.''), st)
                | Some credentials \<Rightarrow>
                    (case env_mediator env of
                       None \<Rightarrow>
                         (Inl (ScannerError
                            (''Unable to proceed. Encrypted volume found but no mediator to '' @
                             ''determine how it should be unlocked.'')), st)
                     | Some m \<Rightarrow>
                         (let tr1 = trace st @ [EvUnlockEncryptedVolume n] in
                          case med_UnlockEncryptedVolume m (ctx st) n credentials of
                            Inl e \<Rightarrow> (Inl e, st\<lparr>trace := tr1\<rparr>)
                          | Inr (unlocked, c1) \<Rightarrow>
                              if unlocked then
                                (let scan_path_spec = path_spec (nodes c1 n);
                                     tr2 = tr1 @ [EvScan scan_path_spec] in
                                 case Scan env c1 scan_path_spec of
                                   Inl e \<Rightarrow> (Inl e, st\<lparr>ctx := c1, trace := tr2\<rparr>)
                                 | Inr c2 \<Rightarrow> (Inr (), st\<lparr>ctx := c2, trace := tr2\<rparr>))
                              else (Inr (), st\<lparr>ctx := c1, trace := tr1\<rparr>))))))"

text \<open>\<^verbatim>\<open>VolumeScanner._ScanFileSystem(scan_node, base_path_specs)\<close>.\<close>

definition ScanFileSystem :: "node_id option \<Rightarrow> scan_state \<Rightarrow> (error + unit) \<times> scan_state" where
  "ScanFileSystem scan_node st =
     (case scan_node of
        None \<Rightarrow> (Inl (ScannerError ''Invalid or missing file system scan node.''), st)
      | Some n \<Rightarrow>
          (case path_spec (nodes (ctx st) n) of
             None \<Rightarrow> (Inl (ScannerError ''Invalid or missing file system scan node.''), st)
           | Some ps \<Rightarrow> (Inr (), st\<lparr>base_path_specs := base_path_specs st @ [ps]\<rparr>)))"

text \<open>
  \<^verbatim>\<open>_ScanVolume\<close> and \<^verbatim>\<open>_ScanVolumeSystemRoot\<close> call each other through \<^verbatim>\<open>self\<close>, and a scan
  after an unlock can add nodes below the node at hand, so the recursion is bounded by
  fuel: \<open>None\<close> is "out of fuel". The methods below take the bound method
  \<^verbatim>\<open>self._ScanVolume\<close> as their first argument; \<open>ScanVolume\<close> ties the knot.
\<close>

type_synonym scan_result = "((error + unit) \<times> scan_state) option"

type_synonym scan_method = "node_id option \<Rightarrow> scan_state \<Rightarrow> scan_result"

text \<open>The \<^verbatim>\<open>for volume_identifier in volume_identifiers\<close> of \<^verbatim>\<open>_ScanVolumeSystemRoot\<close>.\<close>

fun ScanVolumeIdentifiers ::
  "scan_method \<Rightarrow> node_id \<Rightarrow> string list \<Rightarrow> scan_state \<Rightarrow> scan_result" where
  "ScanVolumeIdentifiers self_ScanVolume n [] st = Some (Inr (), st)"
| "ScanVolumeIdentifiers self_ScanVolume n (volume_identifier # rest) st =
     (let location = ''/'' @ volume_identifier in
      case GetSubNodeByLocation (ctx st) n location of
        None \<Rightarrow>
          Some (Inl (ScannerError
            (''Scan node missing for volume identifier: '' @ volume_identifier @ ''.'')), st)
      | Some sub_scan_node \<Rightarrow>
          (case self_ScanVolume (Some sub_scan_node) st of
             None \<Rightarrow> None
           | Some (Inl e, st1) \<Rightarrow> Some (Inl e, st1)
           | Some (Inr u, st1) \<Rightarrow> ScanVolumeIdentifiers self_ScanVolume n rest st1))"

text \<open>\<^verbatim>\<open>_ScanVolumeSystemRoot(scan_context, scan_node, base_path_specs)\<close>.\<close>

definition ScanVolumeSystemRoot ::
  "scan_method \<Rightarrow> env \<Rightarrow> node_id option \<Rightarrow> scan_state \<Rightarrow> scan_result" where
  "ScanVolumeSystemRoot self_ScanVolume env scan_node st =
     (case scan_node of
        None \<Rightarrow> Some (Inl (ScannerError ''Invalid scan node.''), st)
      | Some n \<Rightarrow>
          (case path_spec (nodes (ctx st) n) of
             None \<Rightarrow> Some (Inl (ScannerError ''Invalid scan node.''), st)
           | Some ps \<Rightarrow>
               if node_type_indicator (nodes (ctx st) n) = TYPE_INDICATOR_APFS_CONTAINER then
                 (case GetAPFSVolumeIdentifiers env (Some (nodes (ctx st) n)) (trace st) of
                    (Inl e, tr) \<Rightarrow> Some (Inl e, st\<lparr>trace := tr\<rparr>)
                  | (Inr volume_identifiers, tr) \<Rightarrow>
                      ScanVolumeIdentifiers self_ScanVolume n volume_identifiers
                        (st\<lparr>trace := tr\<rparr>))
               else if node_type_indicator (nodes (ctx st) n) = TYPE_INDICATOR_VSHADOW then
                 (case GetVSSStoreIdentifiers env (Some (nodes (ctx st) n)) (trace st) of
                    (Inl e, tr) \<Rightarrow> Some (Inl e, st\<lparr>trace := tr\<rparr>)
                  | (Inr volume_identifiers, tr) \<Rightarrow>
                      ScanVolumeIdentifiers self_ScanVolume n (rev volume_identifiers)
                        (st\<lparr>trace := tr\<rparr>))
               else
                 Some (Inl (ScannerError
                   (''Unsupported volume system type: '' @
                    type_indicator_str (node_type_indicator (nodes (ctx st) n)) @ ''.'')), st)))"

text \<open>
  The \<^verbatim>\<open>for sub_scan_node in scan_node.sub_nodes\<close> of \<^verbatim>\<open>_ScanVolume\<close>, by index over the
  list as it is in the store at each step, as Python's list iterator reads it. A scan
  can lengthen the list, so the iterations are bounded by fuel as well.
\<close>

fun ScanSubNodes ::
  "scan_method \<Rightarrow> nat \<Rightarrow> node_id \<Rightarrow> nat \<Rightarrow> scan_state \<Rightarrow> scan_result" where
  "ScanSubNodes self_ScanVolume 0 n i st =
     (if i < length (sub_nodes (nodes (ctx st) n)) then None else Some (Inr (), st))"
| "ScanSubNodes self_ScanVolume (Suc fuel) n i st =
     (if i < length (sub_nodes (nodes (ctx st) n)) then
        (case self_ScanVolume (Some (sub_nodes (nodes (ctx st) n) ! i)) st of
           None \<Rightarrow> None
         | Some (Inl e, st1) \<Rightarrow> Some (Inl e, st1)
         | Some (Inr u, st1) \<Rightarrow> ScanSubNodes self_ScanVolume fuel n (Suc i) st1)
      else Some (Inr (), st))"

text \<open>The part of \<^verbatim>\<open>_ScanVolume\<close> after the lock check: the dispatch on the node.\<close>

definition ScanVolumeUnlocked ::
  "scan_method \<Rightarrow> nat \<Rightarrow> env \<Rightarrow> node_id \<Rightarrow> scan_state \<Rightarrow> scan_result" where
  "ScanVolumeUnlocked self_ScanVolume fuel env n st =
     (if IsVolumeSystemRoot (nodes (ctx st) n) then
        ScanVolumeSystemRoot self_ScanVolume env (Some n) st
      else if IsFileSystem (nodes (ctx st) n) then Some (ScanFileSystem (Some n) st)
      else if node_type_indicator (nodes (ctx st) n) = TYPE_INDICATOR_VSHADOW then
        (let new_path_spec =
               NewPathSpec TYPE_INDICATOR_TSK ''/'' (path_spec (nodes (ctx st) n)) in
         Some (Inr (), st\<lparr>base_path_specs := base_path_specs st @ [new_path_spec]\<rparr>))
      else ScanSubNodes self_ScanVolume fuel n 0 st)"

text \<open>The body of \<^verbatim>\<open>_ScanVolume(scan_context, scan_node, base_path_specs)\<close>.\<close>

definition ScanVolumeBody ::
  "scan_method \<Rightarrow> nat \<Rightarrow> env \<Rightarrow> node_id option \<Rightarrow> scan_state \<Rightarrow> scan_result" where
  "ScanVolumeBody self_ScanVolume fuel env scan_node st =
     (case scan_node of
        None \<Rightarrow> Some (Inl (ScannerError ''Invalid or missing scan node.''), st)
      | Some n \<Rightarrow>
          (case path_spec (nodes (ctx st) n) of
             None \<Rightarrow> Some (Inl (ScannerError ''Invalid or missing scan node.''), st)
           | Some ps \<Rightarrow>
               if IsLockedScanNode (ctx st) (Some ps) then
                 (case ScanEncryptedVolume env scan_node st of
                    (Inl e, st1) \<Rightarrow> Some (Inl e, st1)
                  | (Inr u, st1) \<Rightarrow>
                      if IsLockedScanNode (ctx st1) (path_spec (nodes (ctx st1) n))
                      then Some (Inr (), st1)
                      else ScanVolumeUnlocked self_ScanVolume fuel env n st1)
               else ScanVolumeUnlocked self_ScanVolume fuel env n st))"

text \<open>\<^verbatim>\<open>_ScanVolume\<close> with \<^verbatim>\<open>self._ScanVolume\<close> bound to itself, one unit of fuel per call.\<close>

fun ScanVolume :: "nat \<Rightarrow> env \<Rightarrow> node_id option \<Rightarrow> scan_state \<Rightarrow> scan_result" where
  "ScanVolume 0 env scan_node st = None"
| "ScanVolume (Suc fuel) env scan_node st =
     ScanVolumeBody (ScanVolume fuel env) fuel env scan_node st"

section \<open>The entry point\<close>

text \<open>
  \<^verbatim>\<open>while len(scan_node.sub_nodes) == 1: scan_node = scan_node.sub_nodes[0]\<close>. The store
  can hold a cycle, where the loop never ends: \<open>None\<close> is "out of fuel".
\<close>

fun first_decision_node :: "nat \<Rightarrow> scan_context \<Rightarrow> node_id \<Rightarrow> node_id option" where
  "first_decision_node fuel c scan_node =
     (if length (sub_nodes (nodes c scan_node)) = 1 then
        (case fuel of
           0 \<Rightarrow> None
         | Suc fuel' \<Rightarrow> first_decision_node fuel' c (sub_nodes (nodes c scan_node) ! 0))
      else Some scan_node)"

text \<open>
  The \<^verbatim>\<open>for partition_identifier in partition_identifiers\<close> of \<^verbatim>\<open>GetBasePathSpecs\<close>. A sub
  node that is not there is passed on as \<^verbatim>\<open>None\<close>; \<^verbatim>\<open>_ScanVolume\<close> raises on it.
\<close>

fun ScanPartitions ::
  "scan_method \<Rightarrow> node_id \<Rightarrow> string list \<Rightarrow> scan_state \<Rightarrow> scan_result" where
  "ScanPartitions self_ScanVolume n [] st = Some (Inr (), st)"
| "ScanPartitions self_ScanVolume n (partition_identifier # rest) st =
     (let location = ''/'' @ partition_identifier;
          sub_scan_node = GetSubNodeByLocation (ctx st) n location in
      case self_ScanVolume sub_scan_node st of
        None \<Rightarrow> None
      | Some (Inl e, st1) \<Rightarrow> Some (Inl e, st1)
      | Some (Inr u, st1) \<Rightarrow> ScanPartitions self_ScanVolume n rest st1)"

text \<open>The prefix of a Windows device path: backslash, backslash, dot, backslash.\<close>

definition device_path_prefix :: string where
  "device_path_prefix = [CHR 0x5C, CHR 0x5C, CHR ''.'', CHR 0x5C]"

text \<open>What \<^verbatim>\<open>GetBasePathSpecs\<close> hands back at the end of a scan: the list, or the exception.\<close>

definition scan_outcome ::
  "(error + unit) \<times> scan_state \<Rightarrow> (error + path_spec option list) \<times> event list" where
  "scan_outcome r =
     (case r of
        (Inl e, st) \<Rightarrow> (Inl e, trace st)
      | (Inr u, st) \<Rightarrow> (Inr (map Some (base_path_specs st)), trace st))"

text \<open>
  \<^verbatim>\<open>GetBasePathSpecs(source_path)\<close>. The list returned holds \<^verbatim>\<open>scan_node.path_spec\<close> as it
  is for a plain file or directory, so its elements are optional.
\<close>

definition GetBasePathSpecs ::
  "nat \<Rightarrow> env \<Rightarrow> string \<Rightarrow> ((error + path_spec option list) \<times> event list) option" where
  "GetBasePathSpecs fuel env source_path =
     (if source_path = [] then Some (Inl (ScannerError ''Invalid source path.''), [])
      else if \<not> startswith source_path device_path_prefix \<and> \<not> path_exists env source_path then
        Some (Inl (ScannerError
          (''No such device, file or directory: '' @ source_path @ ''.'')), [])
      else
        (case Scan env (OpenSourcePath env source_path) None of
           Inl (ValueError msg) \<Rightarrow>
             Some (Inl (ScannerError (''Unable to scan source with error: '' @ msg)),
                   [EvScan None])
         | Inl (BackEndError msg) \<Rightarrow>
             Some (Inl (ScannerError (''Unable to scan source with error: '' @ msg)),
                   [EvScan None])
         | Inl e \<Rightarrow> Some (Inl e, [EvScan None])
         | Inr scan_context \<Rightarrow>
             if source_type scan_context \<notin>
                  {Some SOURCE_TYPE_STORAGE_MEDIA_DEVICE, Some SOURCE_TYPE_STORAGE_MEDIA_IMAGE}
             then
               (case GetRootScanNode scan_context of
                  None \<Rightarrow> Some (Inl AttributeError, [EvScan None])
                | Some scan_node \<Rightarrow>
                    Some (Inr [path_spec (nodes scan_context scan_node)], [EvScan None]))
             else
               (case GetRootScanNode scan_context of
                  None \<Rightarrow> Some (Inl AttributeError, [EvScan None])
                | Some root \<Rightarrow>
                    (case first_decision_node fuel scan_context root of
                       None \<Rightarrow> None
                     | Some scan_node \<Rightarrow>
                         (let st = \<lparr>ctx = scan_context, base_path_specs = [],
                                    trace = [EvScan None]\<rparr> in
                          if node_type_indicator (nodes scan_context scan_node) \<noteq>
                               TYPE_INDICATOR_TSK_PARTITION
                          then map_option scan_outcome (ScanVolume fuel env (Some scan_node) st)
                          else
                            (case GetTSKPartitionIdentifiers env
                                    (Some (nodes scan_context scan_node)) (trace st) of
                               (Inl e, tr) \<Rightarrow> Some (Inl e, tr)
                             | (Inr partition_identifiers, tr) \<Rightarrow>
                                 map_option scan_outcome
                                   (ScanPartitions (ScanVolume fuel env) scan_node
                                      partition_identifiers (st\<lparr>trace := tr\<rparr>))))))))"

section \<open>Notions used in the statements\<close>

text \<open>The mediator calls of a trace, in order.\<close>

definition mediator_calls :: "event list \<Rightarrow> event list" where
  "mediator_calls tr = filter is_mediator_event tr"

text \<open>
  A selected identifier whose rewritten form the volume system does not resolve to a
  volume.
\<close>

definition missing_volume :: "volume_system \<Rightarrow> string \<Rightarrow> volume_identifier \<Rightarrow> bool" where
  "missing_volume vs prefix x = (GetVolumeByIdentifier vs (rewrite_identifier prefix x) = None)"

text \<open>A bare numeral string: one or more decimal digits and nothing else.\<close>

definition is_digit :: "char \<Rightarrow> bool" where
  "is_digit c = (c \<in> set ''0123456789'')"

definition bare_numeral :: "string \<Rightarrow> bool" where
  "bare_numeral s = (s \<noteq> [] \<and> list_all is_digit s)"

definition numeral_value :: "string \<Rightarrow> nat" where
  "numeral_value s = foldl (\<lambda>a c. a * 10 + (case digit_value c of None \<Rightarrow> 0 | Some v \<Rightarrow> v)) 0 s"

text \<open>
  A sub node as the source scanner leaves a shadow snapshot: it has a path
  specification, is not locked, is neither a volume system root nor a file system, and
  its type indicator is VSHADOW.
\<close>

definition is_snapshot_node :: "scan_context \<Rightarrow> node_id \<Rightarrow> bool" where
  "is_snapshot_node c k =
     (path_spec (nodes c k) \<noteq> None \<and>
      \<not> IsLockedScanNode c (path_spec (nodes c k)) \<and>
      \<not> IsVolumeSystemRoot (nodes c k) \<and>
      \<not> IsFileSystem (nodes c k) \<and>
      node_type_indicator (nodes c k) = TYPE_INDICATOR_VSHADOW)"

definition has_snapshot_node :: "scan_context \<Rightarrow> node_id \<Rightarrow> string \<Rightarrow> bool" where
  "has_snapshot_node c n volume_identifier =
     (case GetSubNodeByLocation c n (''/'' @ volume_identifier) of
        None \<Rightarrow> False
      | Some k \<Rightarrow> is_snapshot_node c k)"

text \<open>
  The base path specification the scan yields for the snapshot of an identifier: a TSK
  path specification at \<^verbatim>\<open>/\<close> whose parent is the path specification of the sub node at
  \<^verbatim>\<open>/<identifier>\<close>.
\<close>

definition snapshot_base_path_spec :: "scan_context \<Rightarrow> node_id \<Rightarrow> string \<Rightarrow> path_spec" where
  "snapshot_base_path_spec c n volume_identifier =
     NewPathSpec TYPE_INDICATOR_TSK ''/''
       (case GetSubNodeByLocation c n (''/'' @ volume_identifier) of
          None \<Rightarrow> None
        | Some k \<Rightarrow> path_spec (nodes c k))"

text \<open>
  What the specification says of a selection: every selected identifier is normalized,
  and the first one whose normalized form resolves to no volume is a scanner error
  naming it.
\<close>

definition normalized_or_scanner_error ::
  "volume_system \<Rightarrow> string \<Rightarrow> volume_identifier list \<Rightarrow> error + string list" where
  "normalized_or_scanner_error vs prefix sel =
     (case find (missing_volume vs prefix) sel of
        None \<Rightarrow> Inr (map (rewrite_identifier prefix) sel)
      | Some y \<Rightarrow>
          Inl (ScannerError
            (''Volume missing for identifier: '' @ rewrite_identifier prefix y @ ''.'')))"

section \<open>Example inputs\<close>

text \<open>
  A volume system that reports the given identifiers and resolves exactly those.
\<close>

definition ex_volume_system :: "string list \<Rightarrow> volume_system" where
  "ex_volume_system ids =
     \<lparr>GetVolumeIdentifiers = ids,
      GetVolumeByIdentifier = (\<lambda>i. if i \<in> set ids then Some (Volume i) else None)\<rparr>"

text \<open>
  A mediator that answers every selection with \<open>sel\<close> and declines to unlock.
\<close>

definition ex_mediator :: "selection \<Rightarrow> mediator" where
  "ex_mediator sel =
     \<lparr>med_GetAPFSVolumeIdentifiers = (\<lambda>vs ids. sel),
      med_GetPartitionIdentifiers = (\<lambda>vs ids. sel),
      med_GetVSSStoreIdentifiers = (\<lambda>vs ids. sel),
      med_UnlockEncryptedVolume = (\<lambda>c n credentials. Inr (False, c))\<rparr>"

text \<open>
  Collaborators around a given volume system, mediator and scan context: every path
  exists, the source scanner hands back the context and leaves it as it is, every
  volume system opened is the given one, and credentials are defined.
\<close>

definition ex_env :: "volume_system \<Rightarrow> mediator option \<Rightarrow> scan_context \<Rightarrow> env" where
  "ex_env vs m c =
     \<lparr>path_exists = (\<lambda>p. True),
      OpenSourcePath = (\<lambda>p. c),
      Scan = (\<lambda>c' ps. Inr c'),
      OpenVolumeSystem = (\<lambda>k ps. Inr vs),
      GetCredentials = (\<lambda>ps. Some [''password'']),
      env_mediator = m\<rparr>"

definition ex_os_path_spec :: path_spec where
  "ex_os_path_spec = PathSpec (TYPE_INDICATOR_OTHER ''OS'') (Some ''/image.raw'') None"

definition ex_node :: "path_spec \<Rightarrow> bool \<Rightarrow> bool \<Rightarrow> node_id list \<Rightarrow> scan_node" where
  "ex_node ps vsr fs subs =
     \<lparr>path_spec = Some ps, node_type_indicator = type_indicator ps,
      IsVolumeSystemRoot = vsr, IsFileSystem = fs, sub_nodes = subs\<rparr>"

definition ex_scan_node :: scan_node where
  "ex_scan_node = ex_node ex_os_path_spec False False []"

text \<open>A plain file: one node, source type "file".\<close>

definition ex_file_context :: scan_context where
  "ex_file_context =
     \<lparr>nodes = (\<lambda>k. ex_node ex_os_path_spec False False []),
      GetRootScanNode = Some 0,
      locked_scan_nodes = {},
      source_type = Some SOURCE_TYPE_FILE\<rparr>"




text \<open>
  A shadow store with two snapshots: node 0 is the volume system root, nodes 1 and 2
  are the snapshots at \<^verbatim>\<open>/vss1\<close> and \<^verbatim>\<open>/vss2\<close>.
\<close>

definition ex_vss_root_path_spec :: path_spec where
  "ex_vss_root_path_spec = PathSpec TYPE_INDICATOR_VSHADOW (Some ''/'') (Some ex_os_path_spec)"

definition ex_vss_path_spec :: "string \<Rightarrow> path_spec" where
  "ex_vss_path_spec loc = PathSpec TYPE_INDICATOR_VSHADOW (Some loc) (Some ex_os_path_spec)"

definition ex_vss_context :: scan_context where
  "ex_vss_context =
     \<lparr>nodes = (\<lambda>k. if k = 0 then ex_node ex_vss_root_path_spec True False [1, 2]
                   else if k = 1 then ex_node (ex_vss_path_spec ''/vss1'') False False []
                   else ex_node (ex_vss_path_spec ''/vss2'') False False []),
      GetRootScanNode = Some 0,
      locked_scan_nodes = {},
      source_type = Some SOURCE_TYPE_STORAGE_MEDIA_IMAGE\<rparr>"


text \<open>
  A shadow store with ten snapshots. \<open>ex_ten_stores_discovered\<close> lists the stores in the
  order of discovery, the oldest first; sub node \<open>k\<close> of the root is the \<open>k\<close>-th of them.
  \<open>ex_ten_stores_reported\<close> is the list \<^verbatim>\<open>source_scanner.GetVolumeIdentifiers\<close> hands to the
  scanner for this store: the same identifiers in the order of their strings, where
  \<^verbatim>\<open>vss10\<close> comes before \<^verbatim>\<open>vss2\<close>.
\<close>

definition ex_ten_stores_discovered :: "string list" where
  "ex_ten_stores_discovered =
     [''vss1'', ''vss2'', ''vss3'', ''vss4'', ''vss5'', ''vss6'', ''vss7'', ''vss8'', ''vss9'',
      ''vss10'']"

definition ex_ten_stores_reported :: "string list" where
  "ex_ten_stores_reported =
     [''vss1'', ''vss10'', ''vss2'', ''vss3'', ''vss4'', ''vss5'', ''vss6'', ''vss7'', ''vss8'',
      ''vss9'']"

definition ex_ten_stores_context :: scan_context where
  "ex_ten_stores_context =
     \<lparr>nodes = (\<lambda>k. if k = 0
                   then ex_node ex_vss_root_path_spec True False [1, 2, 3, 4, 5, 6, 7, 8, 9, 10]
                   else ex_node (ex_vss_path_spec (''/'' @ ex_ten_stores_discovered ! (k - 1)))
                          False False []),
      GetRootScanNode = Some 0,
      locked_scan_nodes = {},
      source_type = Some SOURCE_TYPE_STORAGE_MEDIA_IMAGE\<rparr>"

text \<open>
  The base path specification of a snapshot: a TSK file system at \<^verbatim>\<open>/\<close> on the shadow
  store path specification at \<^verbatim>\<open>/<identifier>\<close>.
\<close>

definition ex_snapshot_base :: "string \<Rightarrow> path_spec option" where
  "ex_snapshot_base volume_identifier =
     Some (PathSpec TYPE_INDICATOR_TSK (Some ''/'')
       (Some (ex_vss_path_spec (''/'' @ volume_identifier))))"

section \<open>Identifier resolution: what each method does\<close>

lemma normalize_loop_find:
  "normalize_loop vs prefix ids acc =
     (case find (missing_volume vs prefix) ids of
        None \<Rightarrow> Inr (acc @ map (rewrite_identifier prefix) ids)
      | Some y \<Rightarrow>
          Inl (ScannerError
            (''Volume missing for identifier: '' @ rewrite_identifier prefix y @ ''.'')))"
  by (induction ids arbitrary: acc) (auto simp: missing_volume_def Let_def split: option.splits)

lemma GetTSK_unfold:
  assumes "valid_path_spec scan_node = Some ps"
    and "OpenVolumeSystem env TSKVolumeSystem ps = Inr vs"
  shows "GetTSKPartitionIdentifiers env scan_node tr =
     (if GetVolumeIdentifiers vs = [] then (Inr [], tr @ [EvOpenVolumeSystem TSKVolumeSystem ps])
      else if length (GetVolumeIdentifiers vs) = 1
        then (Inr (GetVolumeIdentifiers vs), tr @ [EvOpenVolumeSystem TSKVolumeSystem ps])
      else (case env_mediator env of
          None \<Rightarrow> (Inl (ScannerError
              (''Unable to proceed. Partitions found but no mediator to determine '' @
               ''how they should be used.'')), tr @ [EvOpenVolumeSystem TSKVolumeSystem ps])
        | Some m \<Rightarrow> (select_and_normalize
              (med_GetPartitionIdentifiers m vs (GetVolumeIdentifiers vs)) vs ''p'',
            tr @ [EvOpenVolumeSystem TSKVolumeSystem ps,
                  EvGetPartitionIdentifiers (GetVolumeIdentifiers vs)])))"
  using assms by (simp add: GetTSKPartitionIdentifiers_def Let_def split: option.splits)

lemma GetAPFS_unfold:
  assumes "valid_path_spec scan_node = Some ps"
    and "OpenVolumeSystem env APFSVolumeSystem ps = Inr vs"
  shows "GetAPFSVolumeIdentifiers env scan_node tr =
     (if GetVolumeIdentifiers vs = [] then (Inr [], tr @ [EvOpenVolumeSystem APFSVolumeSystem ps])
      else if length (GetVolumeIdentifiers vs) > 1 then
        (case env_mediator env of
          None \<Rightarrow> (Inl (ScannerError
              (''Unable to proceed. APFS volumes found but no mediator to '' @
               ''determine how they should be used.'')), tr @ [EvOpenVolumeSystem APFSVolumeSystem ps])
        | Some m \<Rightarrow> (select_and_normalize
              (med_GetAPFSVolumeIdentifiers m vs (GetVolumeIdentifiers vs)) vs ''apfs'',
            tr @ [EvOpenVolumeSystem APFSVolumeSystem ps,
                  EvGetAPFSVolumeIdentifiers (GetVolumeIdentifiers vs)]))
      else (NormalizedVolumeIdentifiers vs (Some (map StrId (GetVolumeIdentifiers vs))) ''apfs'',
            tr @ [EvOpenVolumeSystem APFSVolumeSystem ps]))"
  using assms by (simp add: GetAPFSVolumeIdentifiers_def Let_def split: option.splits)

lemma GetVSS_unfold:
  assumes "valid_path_spec scan_node = Some ps"
    and "OpenVolumeSystem env VShadowVolumeSystem ps = Inr vs"
  shows "GetVSSStoreIdentifiers env scan_node tr =
     (if GetVolumeIdentifiers vs = [] then (Inr [], tr @ [EvOpenVolumeSystem VShadowVolumeSystem ps])
      else (case env_mediator env of
          None \<Rightarrow> (Inl (ScannerError
              (''Unable to proceed. VSS stores found but no mediator to determine '' @
               ''how they should be used.'')), tr @ [EvOpenVolumeSystem VShadowVolumeSystem ps])
        | Some m \<Rightarrow> (select_and_normalize
              (med_GetVSSStoreIdentifiers m vs (GetVolumeIdentifiers vs)) vs ''vss'',
            tr @ [EvOpenVolumeSystem VShadowVolumeSystem ps,
                  EvGetVSSStoreIdentifiers (GetVolumeIdentifiers vs)])))"
  using assms by (simp add: GetVSSStoreIdentifiers_def Let_def split: option.splits)

lemma length_ge2: "2 \<le> length xs \<Longrightarrow> xs \<noteq> [] \<and> length xs \<noteq> 1 \<and> length xs > 1"
  by (cases xs) auto

text \<open>
  C3. For a partition table node whose volume system opens: with exactly one partition
  identifier the identifier is returned and the mediator is not called; with two or
  more the mediator is called when one is configured (and the result is the normalized
  selection), and without a mediator the call fails with a scanner error; with no
  identifier the result is the empty list, with no error and no mediator call.
\<close>

theorem partition_mediator_use:
  assumes "valid_path_spec scan_node = Some ps"
    and "OpenVolumeSystem env TSKVolumeSystem ps = Inr vs"
  shows
    "(length (GetVolumeIdentifiers vs) = 1 \<longrightarrow>
        GetTSKPartitionIdentifiers env scan_node tr =
          (Inr (GetVolumeIdentifiers vs), tr @ [EvOpenVolumeSystem TSKVolumeSystem ps]) \<and>
        mediator_calls (snd (GetTSKPartitionIdentifiers env scan_node tr)) = mediator_calls tr) \<and>
     (2 \<le> length (GetVolumeIdentifiers vs) \<longrightarrow>
        (\<forall>m. env_mediator env = Some m \<longrightarrow>
           mediator_calls (snd (GetTSKPartitionIdentifiers env scan_node tr)) =
             mediator_calls tr @ [EvGetPartitionIdentifiers (GetVolumeIdentifiers vs)] \<and>
           fst (GetTSKPartitionIdentifiers env scan_node tr) =
             select_and_normalize
               (med_GetPartitionIdentifiers m vs (GetVolumeIdentifiers vs)) vs ''p'') \<and>
        (env_mediator env = None \<longrightarrow>
           (\<exists>msg. fst (GetTSKPartitionIdentifiers env scan_node tr) = Inl (ScannerError msg)) \<and>
           mediator_calls (snd (GetTSKPartitionIdentifiers env scan_node tr)) =
             mediator_calls tr)) \<and>
     (GetVolumeIdentifiers vs = [] \<longrightarrow>
        GetTSKPartitionIdentifiers env scan_node tr =
          (Inr [], tr @ [EvOpenVolumeSystem TSKVolumeSystem ps]) \<and>
        mediator_calls (snd (GetTSKPartitionIdentifiers env scan_node tr)) = mediator_calls tr)"
proof (intro conjI impI allI)
  assume "length (GetVolumeIdentifiers vs) = 1"
  then show "GetTSKPartitionIdentifiers env scan_node tr =
       (Inr (GetVolumeIdentifiers vs), tr @ [EvOpenVolumeSystem TSKVolumeSystem ps])"
    and "mediator_calls (snd (GetTSKPartitionIdentifiers env scan_node tr)) = mediator_calls tr"
    by (auto simp: GetTSK_unfold[OF assms] mediator_calls_def)
next
  fix m assume "2 \<le> length (GetVolumeIdentifiers vs)" and "env_mediator env = Some m"
  then show "mediator_calls (snd (GetTSKPartitionIdentifiers env scan_node tr)) =
       mediator_calls tr @ [EvGetPartitionIdentifiers (GetVolumeIdentifiers vs)]"
    and "fst (GetTSKPartitionIdentifiers env scan_node tr) =
       select_and_normalize (med_GetPartitionIdentifiers m vs (GetVolumeIdentifiers vs)) vs ''p''"
    using length_ge2[of "GetVolumeIdentifiers vs"]
    by (simp_all add: GetTSK_unfold[OF assms] mediator_calls_def)
next
  assume "2 \<le> length (GetVolumeIdentifiers vs)" and "env_mediator env = None"
  then show "\<exists>msg. fst (GetTSKPartitionIdentifiers env scan_node tr) = Inl (ScannerError msg)"
    and "mediator_calls (snd (GetTSKPartitionIdentifiers env scan_node tr)) = mediator_calls tr"
    using length_ge2[of "GetVolumeIdentifiers vs"]
    by (simp_all add: GetTSK_unfold[OF assms] mediator_calls_def)
next
  assume "GetVolumeIdentifiers vs = []"
  then show "GetTSKPartitionIdentifiers env scan_node tr =
       (Inr [], tr @ [EvOpenVolumeSystem TSKVolumeSystem ps])"
    and "mediator_calls (snd (GetTSKPartitionIdentifiers env scan_node tr)) = mediator_calls tr"
    by (simp_all add: GetTSK_unfold[OF assms] mediator_calls_def)
qed


theorem partition_mediator_use_witness:
  "GetTSKPartitionIdentifiers (ex_env (ex_volume_system [''p1'']) None ex_file_context)
       (Some ex_scan_node) [] =
     (Inr [''p1''], [EvOpenVolumeSystem TSKVolumeSystem ex_os_path_spec]) \<and>
   (\<exists>msg. fst (GetTSKPartitionIdentifiers
       (ex_env (ex_volume_system [''p1'', ''p2'']) None ex_file_context)
       (Some ex_scan_node) []) = Inl (ScannerError msg)) \<and>
   mediator_calls (snd (GetTSKPartitionIdentifiers
       (ex_env (ex_volume_system [''p1'', ''p2''])
          (Some (ex_mediator (Inr (Some [IntId 2])))) ex_file_context)
       (Some ex_scan_node) [])) = [EvGetPartitionIdentifiers [''p1'', ''p2'']] \<and>
   GetTSKPartitionIdentifiers (ex_env (ex_volume_system []) None ex_file_context)
       (Some ex_scan_node) [] =
     (Inr [], [EvOpenVolumeSystem TSKVolumeSystem ex_os_path_spec])"
  using
    partition_mediator_use [of "Some ex_scan_node" ex_os_path_spec
      "ex_env (ex_volume_system [''p1'']) None ex_file_context" "ex_volume_system [''p1'']" "[]"]
    partition_mediator_use [of "Some ex_scan_node" ex_os_path_spec
      "ex_env (ex_volume_system [''p1'', ''p2'']) None ex_file_context"
      "ex_volume_system [''p1'', ''p2'']" "[]"]
    partition_mediator_use [of "Some ex_scan_node" ex_os_path_spec
      "ex_env (ex_volume_system [''p1'', ''p2''])
         (Some (ex_mediator (Inr (Some [IntId 2])))) ex_file_context"
      "ex_volume_system [''p1'', ''p2'']" "[]"]
    partition_mediator_use [of "Some ex_scan_node" ex_os_path_spec
      "ex_env (ex_volume_system []) None ex_file_context" "ex_volume_system []" "[]"]
  by (simp add: valid_path_spec_def ex_scan_node_def ex_node_def ex_env_def
      ex_volume_system_def mediator_calls_def)


text \<open>
  C1, as stated, fails on APFS containers: with exactly one APFS volume identifier and
  a mediator configured, the identifier is selected (and normalized) and the
  mediator is not called.
\<close>

theorem apfs_single_identifier_skips_mediator:
  "GetVolumeIdentifiers (ex_volume_system [''apfs1'']) = [''apfs1''] \<and>
   env_mediator (ex_env (ex_volume_system [''apfs1'']) (Some (ex_mediator (Inr (Some []))))
      ex_file_context) = Some (ex_mediator (Inr (Some []))) \<and>
   GetAPFSVolumeIdentifiers
      (ex_env (ex_volume_system [''apfs1'']) (Some (ex_mediator (Inr (Some [])))) ex_file_context)
      (Some ex_scan_node) [] =
     (Inr [''apfs1''], [EvOpenVolumeSystem APFSVolumeSystem ex_os_path_spec]) \<and>
   mediator_calls (snd (GetAPFSVolumeIdentifiers
      (ex_env (ex_volume_system [''apfs1'']) (Some (ex_mediator (Inr (Some [])))) ex_file_context)
      (Some ex_scan_node) [])) = []"
  by (simp add: GetAPFSVolumeIdentifiers_def valid_path_spec_def ex_scan_node_def ex_node_def
      ex_env_def ex_volume_system_def mediator_calls_def NormalizedVolumeIdentifiers_def
      startswith_def)

text \<open>
  C1, amended. With exactly one identifier, a partition table node returns it without
  calling the mediator, and an APFS container node normalizes it without calling the
  mediator; an APFS container node calls the mediator when there are two or more
  identifiers; a shadow store node calls the mediator whenever there is at least one
  identifier, and fails with a scanner error when none is configured.
\<close>

theorem single_identifier_mediator_use:
  assumes "valid_path_spec scan_node = Some ps"
  shows
    "(\<forall>vs. OpenVolumeSystem env TSKVolumeSystem ps = Inr vs \<longrightarrow>
        length (GetVolumeIdentifiers vs) = 1 \<longrightarrow>
        GetTSKPartitionIdentifiers env scan_node tr =
          (Inr (GetVolumeIdentifiers vs), tr @ [EvOpenVolumeSystem TSKVolumeSystem ps])) \<and>
     (\<forall>vs. OpenVolumeSystem env APFSVolumeSystem ps = Inr vs \<longrightarrow>
        length (GetVolumeIdentifiers vs) = 1 \<longrightarrow>
        GetAPFSVolumeIdentifiers env scan_node tr =
          (NormalizedVolumeIdentifiers vs (Some (map StrId (GetVolumeIdentifiers vs))) ''apfs'',
           tr @ [EvOpenVolumeSystem APFSVolumeSystem ps])) \<and>
     (\<forall>vs m. OpenVolumeSystem env APFSVolumeSystem ps = Inr vs \<longrightarrow>
        2 \<le> length (GetVolumeIdentifiers vs) \<longrightarrow> env_mediator env = Some m \<longrightarrow>
        snd (GetAPFSVolumeIdentifiers env scan_node tr) =
          tr @ [EvOpenVolumeSystem APFSVolumeSystem ps,
                EvGetAPFSVolumeIdentifiers (GetVolumeIdentifiers vs)]) \<and>
     (\<forall>vs m. OpenVolumeSystem env VShadowVolumeSystem ps = Inr vs \<longrightarrow>
        GetVolumeIdentifiers vs \<noteq> [] \<longrightarrow> env_mediator env = Some m \<longrightarrow>
        snd (GetVSSStoreIdentifiers env scan_node tr) =
          tr @ [EvOpenVolumeSystem VShadowVolumeSystem ps,
                EvGetVSSStoreIdentifiers (GetVolumeIdentifiers vs)]) \<and>
     (\<forall>vs. OpenVolumeSystem env VShadowVolumeSystem ps = Inr vs \<longrightarrow>
        GetVolumeIdentifiers vs \<noteq> [] \<longrightarrow> env_mediator env = None \<longrightarrow>
        (\<exists>msg. fst (GetVSSStoreIdentifiers env scan_node tr) = Inl (ScannerError msg)))"
proof (intro conjI impI allI)
  fix vs assume "OpenVolumeSystem env TSKVolumeSystem ps = Inr vs"
    and "length (GetVolumeIdentifiers vs) = 1"
  then show "GetTSKPartitionIdentifiers env scan_node tr =
      (Inr (GetVolumeIdentifiers vs), tr @ [EvOpenVolumeSystem TSKVolumeSystem ps])"
    using assms by (auto simp: GetTSK_unfold)
next
  fix vs assume "OpenVolumeSystem env APFSVolumeSystem ps = Inr vs"
    and "length (GetVolumeIdentifiers vs) = 1"
  then show "GetAPFSVolumeIdentifiers env scan_node tr =
      (NormalizedVolumeIdentifiers vs (Some (map StrId (GetVolumeIdentifiers vs))) ''apfs'',
       tr @ [EvOpenVolumeSystem APFSVolumeSystem ps])"
    using assms by (auto simp: GetAPFS_unfold)
next
  fix vs m assume "OpenVolumeSystem env APFSVolumeSystem ps = Inr vs"
    and "2 \<le> length (GetVolumeIdentifiers vs)" and "env_mediator env = Some m"
  then show "snd (GetAPFSVolumeIdentifiers env scan_node tr) =
      tr @ [EvOpenVolumeSystem APFSVolumeSystem ps,
            EvGetAPFSVolumeIdentifiers (GetVolumeIdentifiers vs)]"
    using assms length_ge2[of "GetVolumeIdentifiers vs"] by (simp add: GetAPFS_unfold)
next
  fix vs m assume "OpenVolumeSystem env VShadowVolumeSystem ps = Inr vs"
    and "GetVolumeIdentifiers vs \<noteq> []" and "env_mediator env = Some m"
  then show "snd (GetVSSStoreIdentifiers env scan_node tr) =
      tr @ [EvOpenVolumeSystem VShadowVolumeSystem ps,
            EvGetVSSStoreIdentifiers (GetVolumeIdentifiers vs)]"
    using assms by (simp add: GetVSS_unfold)
next
  fix vs assume "OpenVolumeSystem env VShadowVolumeSystem ps = Inr vs"
    and "GetVolumeIdentifiers vs \<noteq> []" and "env_mediator env = None"
  then show "\<exists>msg. fst (GetVSSStoreIdentifiers env scan_node tr) = Inl (ScannerError msg)"
    using assms by (simp add: GetVSS_unfold)
qed

theorem single_identifier_mediator_use_witness:
  "GetTSKPartitionIdentifiers (ex_env (ex_volume_system [''p1'']) None ex_file_context)
       (Some ex_scan_node) [] =
     (Inr [''p1''], [EvOpenVolumeSystem TSKVolumeSystem ex_os_path_spec]) \<and>
   GetAPFSVolumeIdentifiers (ex_env (ex_volume_system [''apfs1'']) None ex_file_context)
       (Some ex_scan_node) [] =
     (Inr [''apfs1''], [EvOpenVolumeSystem APFSVolumeSystem ex_os_path_spec]) \<and>
   snd (GetAPFSVolumeIdentifiers
       (ex_env (ex_volume_system [''apfs1'', ''apfs2''])
          (Some (ex_mediator (Inr (Some [])))) ex_file_context)
       (Some ex_scan_node) []) =
     [EvOpenVolumeSystem APFSVolumeSystem ex_os_path_spec,
      EvGetAPFSVolumeIdentifiers [''apfs1'', ''apfs2'']] \<and>
   snd (GetVSSStoreIdentifiers
       (ex_env (ex_volume_system [''vss1''])
          (Some (ex_mediator (Inr (Some [])))) ex_file_context)
       (Some ex_scan_node) []) =
     [EvOpenVolumeSystem VShadowVolumeSystem ex_os_path_spec,
      EvGetVSSStoreIdentifiers [''vss1'']] \<and>
   (\<exists>msg. fst (GetVSSStoreIdentifiers
       (ex_env (ex_volume_system [''vss1'']) None ex_file_context)
       (Some ex_scan_node) []) = Inl (ScannerError msg))"
  using
    single_identifier_mediator_use [of "Some ex_scan_node" ex_os_path_spec
      "ex_env (ex_volume_system [''p1'']) None ex_file_context" "[]"]
    single_identifier_mediator_use [of "Some ex_scan_node" ex_os_path_spec
      "ex_env (ex_volume_system [''apfs1'']) None ex_file_context" "[]"]
    single_identifier_mediator_use [of "Some ex_scan_node" ex_os_path_spec
      "ex_env (ex_volume_system [''apfs1'', ''apfs2''])
          (Some (ex_mediator (Inr (Some [])))) ex_file_context" "[]"]
    single_identifier_mediator_use [of "Some ex_scan_node" ex_os_path_spec
      "ex_env (ex_volume_system [''vss1''])
          (Some (ex_mediator (Inr (Some [])))) ex_file_context" "[]"]
    single_identifier_mediator_use [of "Some ex_scan_node" ex_os_path_spec
      "ex_env (ex_volume_system [''vss1'']) None ex_file_context" "[]"]
  by (simp add: valid_path_spec_def ex_scan_node_def ex_node_def ex_env_def
      ex_volume_system_def NormalizedVolumeIdentifiers_def startswith_def)

lemma select_and_normalize_simps:
  "select_and_normalize (Inl KeyboardInterrupt) vs prefix =
     Inl (UserAbort ''File system scan aborted.'')"
  "select_and_normalize (Inr None) vs prefix = Inl TypeError"
  "select_and_normalize (Inr (Some sel)) vs prefix = normalized_or_scanner_error vs prefix sel"
  by (simp_all add: select_and_normalize_def NormalizedVolumeIdentifiers_def
      normalize_loop_find normalized_or_scanner_error_def split: option.splits)



lemma ex_rewrite: "rewrite_identifier ''p'' (IntId 2) = ''p2''"
  "rewrite_identifier ''p'' (StrId ''2'') = ''p2''"
  "rewrite_identifier ''p'' (StrId ''p2'') = ''p2''"
  "rewrite_identifier ''p'' (StrId ''p9'') = ''p9''"
  "rewrite_identifier ''apfs'' (StrId ''apfs1'') = ''apfs1''"
  "rewrite_identifier ''vss'' (IntId 3) = ''vss3''"
  "rewrite_identifier ''apfs'' (IntId 2) = ''apfs2''"
  by (simp_all add: startswith_def int_base10_def strip_def isspace_def
      int_unsigned_def digit_value_def format_d_def digit_char_def)


section \<open>Cancellation and an empty answer\<close>

text \<open>
  C8. In each of the three identifier methods, when the mediator's selection method is
  called and raises \<^verbatim>\<open>KeyboardInterrupt\<close>, the method raises the user abort error
  "File system scan aborted.", which is not a scanner error.
\<close>

theorem interrupt_is_user_abort:
  assumes "valid_path_spec scan_node = Some ps" and "env_mediator env = Some m"
  shows
    "(\<forall>vs. OpenVolumeSystem env APFSVolumeSystem ps = Inr vs \<longrightarrow>
        2 \<le> length (GetVolumeIdentifiers vs) \<longrightarrow>
        med_GetAPFSVolumeIdentifiers m vs (GetVolumeIdentifiers vs) = Inl KeyboardInterrupt \<longrightarrow>
        fst (GetAPFSVolumeIdentifiers env scan_node tr) =
          Inl (UserAbort ''File system scan aborted.'')) \<and>
     (\<forall>vs. OpenVolumeSystem env TSKVolumeSystem ps = Inr vs \<longrightarrow>
        2 \<le> length (GetVolumeIdentifiers vs) \<longrightarrow>
        med_GetPartitionIdentifiers m vs (GetVolumeIdentifiers vs) = Inl KeyboardInterrupt \<longrightarrow>
        fst (GetTSKPartitionIdentifiers env scan_node tr) =
          Inl (UserAbort ''File system scan aborted.'')) \<and>
     (\<forall>vs. OpenVolumeSystem env VShadowVolumeSystem ps = Inr vs \<longrightarrow>
        GetVolumeIdentifiers vs \<noteq> [] \<longrightarrow>
        med_GetVSSStoreIdentifiers m vs (GetVolumeIdentifiers vs) = Inl KeyboardInterrupt \<longrightarrow>
        fst (GetVSSStoreIdentifiers env scan_node tr) =
          Inl (UserAbort ''File system scan aborted.'')) \<and>
     (\<forall>msg. UserAbort ''File system scan aborted.'' \<noteq> ScannerError msg)"
proof (intro conjI impI allI)
  fix vs assume "OpenVolumeSystem env APFSVolumeSystem ps = Inr vs"
    and "2 \<le> length (GetVolumeIdentifiers vs)"
    and "med_GetAPFSVolumeIdentifiers m vs (GetVolumeIdentifiers vs) = Inl KeyboardInterrupt"
  then show "fst (GetAPFSVolumeIdentifiers env scan_node tr) =
      Inl (UserAbort ''File system scan aborted.'')"
    using assms length_ge2[of "GetVolumeIdentifiers vs"]
    by (simp add: GetAPFS_unfold select_and_normalize_simps)
next
  fix vs assume "OpenVolumeSystem env TSKVolumeSystem ps = Inr vs"
    and "2 \<le> length (GetVolumeIdentifiers vs)"
    and "med_GetPartitionIdentifiers m vs (GetVolumeIdentifiers vs) = Inl KeyboardInterrupt"
  then show "fst (GetTSKPartitionIdentifiers env scan_node tr) =
      Inl (UserAbort ''File system scan aborted.'')"
    using assms length_ge2[of "GetVolumeIdentifiers vs"]
    by (simp add: GetTSK_unfold select_and_normalize_simps)
next
  fix vs assume "OpenVolumeSystem env VShadowVolumeSystem ps = Inr vs"
    and "GetVolumeIdentifiers vs \<noteq> []"
    and "med_GetVSSStoreIdentifiers m vs (GetVolumeIdentifiers vs) = Inl KeyboardInterrupt"
  then show "fst (GetVSSStoreIdentifiers env scan_node tr) =
      Inl (UserAbort ''File system scan aborted.'')"
    using assms by (simp add: GetVSS_unfold select_and_normalize_simps)
next
  fix msg show "UserAbort ''File system scan aborted.'' \<noteq> ScannerError msg" by simp
qed

theorem interrupt_is_user_abort_witness:
  "fst (GetAPFSVolumeIdentifiers
       (ex_env (ex_volume_system [''apfs1'', ''apfs2''])
          (Some (ex_mediator (Inl KeyboardInterrupt))) ex_file_context)
       (Some ex_scan_node) []) = Inl (UserAbort ''File system scan aborted.'') \<and>
   fst (GetTSKPartitionIdentifiers
       (ex_env (ex_volume_system [''p1'', ''p2''])
          (Some (ex_mediator (Inl KeyboardInterrupt))) ex_file_context)
       (Some ex_scan_node) []) = Inl (UserAbort ''File system scan aborted.'') \<and>
   fst (GetVSSStoreIdentifiers
       (ex_env (ex_volume_system [''vss1''])
          (Some (ex_mediator (Inl KeyboardInterrupt))) ex_file_context)
       (Some ex_scan_node) []) = Inl (UserAbort ''File system scan aborted.'')"
proof -
  let ?n = "Some ex_scan_node"
  let ?m = "ex_mediator (Inl KeyboardInterrupt)"
  have v: "valid_path_spec ?n = Some ex_os_path_spec"
    by (simp add: valid_path_spec_def ex_scan_node_def ex_node_def)
  have c1: "fst (GetAPFSVolumeIdentifiers
         (ex_env (ex_volume_system [''apfs1'', ''apfs2'']) (Some ?m) ex_file_context) ?n []) =
       Inl (UserAbort ''File system scan aborted.'')"
    using interrupt_is_user_abort [OF v, of _ ?m, THEN conjunct1]
    by (simp add: ex_env_def ex_mediator_def ex_volume_system_def)
  have c2: "fst (GetTSKPartitionIdentifiers
         (ex_env (ex_volume_system [''p1'', ''p2'']) (Some ?m) ex_file_context) ?n []) =
       Inl (UserAbort ''File system scan aborted.'')"
    using interrupt_is_user_abort [OF v, of _ ?m, THEN conjunct2, THEN conjunct1]
    by (simp add: ex_env_def ex_mediator_def ex_volume_system_def)
  have c3: "fst (GetVSSStoreIdentifiers
         (ex_env (ex_volume_system [''vss1'']) (Some ?m) ex_file_context) ?n []) =
       Inl (UserAbort ''File system scan aborted.'')"
    using interrupt_is_user_abort [OF v, of _ ?m, THEN conjunct2, THEN conjunct2, THEN conjunct1]
    by (simp add: ex_env_def ex_mediator_def ex_volume_system_def)
  from c1 c2 c3 show ?thesis by simp
qed

text \<open>
  C10. In each of the three identifier methods, when the mediator's selection method
  is called and returns \<^verbatim>\<open>None\<close>, normalization iterates \<^verbatim>\<open>None\<close> and the method raises
  \<^verbatim>\<open>TypeError\<close>, which is neither a scanner error nor a user abort.
\<close>

theorem none_selection_is_type_error:
  assumes "valid_path_spec scan_node = Some ps" and "env_mediator env = Some m"
  shows
    "(\<forall>vs. OpenVolumeSystem env APFSVolumeSystem ps = Inr vs \<longrightarrow>
        2 \<le> length (GetVolumeIdentifiers vs) \<longrightarrow>
        med_GetAPFSVolumeIdentifiers m vs (GetVolumeIdentifiers vs) = Inr None \<longrightarrow>
        fst (GetAPFSVolumeIdentifiers env scan_node tr) = Inl TypeError) \<and>
     (\<forall>vs. OpenVolumeSystem env TSKVolumeSystem ps = Inr vs \<longrightarrow>
        2 \<le> length (GetVolumeIdentifiers vs) \<longrightarrow>
        med_GetPartitionIdentifiers m vs (GetVolumeIdentifiers vs) = Inr None \<longrightarrow>
        fst (GetTSKPartitionIdentifiers env scan_node tr) = Inl TypeError) \<and>
     (\<forall>vs. OpenVolumeSystem env VShadowVolumeSystem ps = Inr vs \<longrightarrow>
        GetVolumeIdentifiers vs \<noteq> [] \<longrightarrow>
        med_GetVSSStoreIdentifiers m vs (GetVolumeIdentifiers vs) = Inr None \<longrightarrow>
        fst (GetVSSStoreIdentifiers env scan_node tr) = Inl TypeError) \<and>
     (\<forall>vs prefix. NormalizedVolumeIdentifiers vs None prefix = Inl TypeError) \<and>
     (\<forall>msg. TypeError \<noteq> ScannerError msg \<and> TypeError \<noteq> UserAbort msg)"
proof (intro conjI impI allI)
  fix vs assume "OpenVolumeSystem env APFSVolumeSystem ps = Inr vs"
    and "2 \<le> length (GetVolumeIdentifiers vs)"
    and "med_GetAPFSVolumeIdentifiers m vs (GetVolumeIdentifiers vs) = Inr None"
  then show "fst (GetAPFSVolumeIdentifiers env scan_node tr) = Inl TypeError"
    using assms length_ge2[of "GetVolumeIdentifiers vs"]
    by (simp add: GetAPFS_unfold select_and_normalize_simps)
next
  fix vs assume "OpenVolumeSystem env TSKVolumeSystem ps = Inr vs"
    and "2 \<le> length (GetVolumeIdentifiers vs)"
    and "med_GetPartitionIdentifiers m vs (GetVolumeIdentifiers vs) = Inr None"
  then show "fst (GetTSKPartitionIdentifiers env scan_node tr) = Inl TypeError"
    using assms length_ge2[of "GetVolumeIdentifiers vs"]
    by (simp add: GetTSK_unfold select_and_normalize_simps)
next
  fix vs assume "OpenVolumeSystem env VShadowVolumeSystem ps = Inr vs"
    and "GetVolumeIdentifiers vs \<noteq> []"
    and "med_GetVSSStoreIdentifiers m vs (GetVolumeIdentifiers vs) = Inr None"
  then show "fst (GetVSSStoreIdentifiers env scan_node tr) = Inl TypeError"
    using assms by (simp add: GetVSS_unfold select_and_normalize_simps)
next
  fix vs prefix show "NormalizedVolumeIdentifiers vs None prefix = Inl TypeError"
    by (simp add: NormalizedVolumeIdentifiers_def)
next
  fix msg show "TypeError \<noteq> ScannerError msg" and "TypeError \<noteq> UserAbort msg" by simp_all
qed

theorem none_selection_is_type_error_witness:
  "fst (GetAPFSVolumeIdentifiers
       (ex_env (ex_volume_system [''apfs1'', ''apfs2''])
          (Some (ex_mediator (Inr None))) ex_file_context)
       (Some ex_scan_node) []) = Inl TypeError \<and>
   fst (GetTSKPartitionIdentifiers
       (ex_env (ex_volume_system [''p1'', ''p2''])
          (Some (ex_mediator (Inr None))) ex_file_context)
       (Some ex_scan_node) []) = Inl TypeError \<and>
   fst (GetVSSStoreIdentifiers
       (ex_env (ex_volume_system [''vss1''])
          (Some (ex_mediator (Inr None))) ex_file_context)
       (Some ex_scan_node) []) = Inl TypeError"
proof -
  let ?n = "Some ex_scan_node"
  let ?m = "ex_mediator (Inr None)"
  have v: "valid_path_spec ?n = Some ex_os_path_spec"
    by (simp add: valid_path_spec_def ex_scan_node_def ex_node_def)
  have c1: "fst (GetAPFSVolumeIdentifiers
         (ex_env (ex_volume_system [''apfs1'', ''apfs2'']) (Some ?m) ex_file_context) ?n []) =
       Inl TypeError"
    using none_selection_is_type_error [OF v, of _ ?m, THEN conjunct1]
    by (simp add: ex_env_def ex_mediator_def ex_volume_system_def)
  have c2: "fst (GetTSKPartitionIdentifiers
         (ex_env (ex_volume_system [''p1'', ''p2'']) (Some ?m) ex_file_context) ?n []) =
       Inl TypeError"
    using none_selection_is_type_error [OF v, of _ ?m, THEN conjunct2, THEN conjunct1]
    by (simp add: ex_env_def ex_mediator_def ex_volume_system_def)
  have c3: "fst (GetVSSStoreIdentifiers
         (ex_env (ex_volume_system [''vss1'']) (Some ?m) ex_file_context) ?n []) =
       Inl TypeError"
    using none_selection_is_type_error [OF v, of _ ?m, THEN conjunct2, THEN conjunct2, THEN conjunct1]
    by (simp add: ex_env_def ex_mediator_def ex_volume_system_def)
  from c1 c2 c3 show ?thesis by simp
qed


section \<open>Normalization\<close>

lemma startswith_append: "startswith (p @ t) p"
  by (simp add: startswith_def)

lemma rewrite_identifier_fixed:
  "rewrite_identifier prefix (StrId (rewrite_identifier prefix x)) = rewrite_identifier prefix x"
  by (cases x) (auto simp: startswith_append split: option.splits)

lemma normalize_loop_Inr:
  assumes "normalize_loop vs prefix ids acc = Inr out"
  shows "out = acc @ map (rewrite_identifier prefix) ids \<and>
     (\<forall>x \<in> set ids. GetVolumeByIdentifier vs (rewrite_identifier prefix x) \<noteq> None)"
proof (cases "find (missing_volume vs prefix) ids")
  case None
  then have "\<forall>x \<in> set ids. \<not> missing_volume vs prefix x"
    by (simp add: find_None_iff)
  moreover have "out = acc @ map (rewrite_identifier prefix) ids"
    using assms None by (simp add: normalize_loop_find)
  ultimately show ?thesis by (simp add: missing_volume_def)
next
  case (Some y)
  then show ?thesis using assms by (simp add: normalize_loop_find)
qed

lemma normalize_loop_fixed:
  "\<forall>s \<in> set out. GetVolumeByIdentifier vs s \<noteq> None \<and> rewrite_identifier prefix (StrId s) = s \<Longrightarrow>
   normalize_loop vs prefix (map StrId out) acc = Inr (acc @ out)"
  by (induction out arbitrary: acc) (auto simp: Let_def simp del: rewrite_identifier.simps split: option.splits)

lemma NormalizedVolumeIdentifiers_idempotent:
  assumes "NormalizedVolumeIdentifiers vs (Some ids) prefix = Inr out"
  shows "NormalizedVolumeIdentifiers vs (Some (map StrId out)) prefix = Inr out"
proof -
  from assms have l: "normalize_loop vs prefix ids [] = Inr out"
    by (simp add: NormalizedVolumeIdentifiers_def)
  from normalize_loop_Inr[OF l]
  have out: "out = map (rewrite_identifier prefix) ids"
    and ok: "\<forall>x \<in> set ids. GetVolumeByIdentifier vs (rewrite_identifier prefix x) \<noteq> None"
    by simp_all
  have "\<forall>s \<in> set out. GetVolumeByIdentifier vs s \<noteq> None \<and> rewrite_identifier prefix (StrId s) = s"
    using ok unfolding out by (auto simp: rewrite_identifier_fixed simp del: rewrite_identifier.simps)
  from normalize_loop_fixed[OF this, of "[]"] show ?thesis
    by (simp add: NormalizedVolumeIdentifiers_def)
qed

lemma is_digit_cases:
  "is_digit c \<Longrightarrow> \<exists>v. digit_value c = Some v"
  by (auto simp: is_digit_def digit_value_def)

lemma is_digit_not_space: "is_digit c \<Longrightarrow> \<not> isspace c"
  by (auto simp: is_digit_def isspace_def)

lemma is_digit_not_sign:
  "is_digit c \<Longrightarrow> c \<noteq> CHR ''-'' \<and> c \<noteq> CHR ''+'' \<and> c \<noteq> CHR ''_''"
  by (auto simp: is_digit_def)

lemma dropWhile_digits: "list_all is_digit s \<Longrightarrow> dropWhile isspace s = s"
  by (cases s) (auto simp: is_digit_not_space)

lemma strip_digits: "list_all is_digit s \<Longrightarrow> strip s = s"
proof -
  assume a: "list_all is_digit s"
  then have "list_all is_digit (rev s)" by (simp add: list_all_iff)
  with a show ?thesis by (simp add: strip_def dropWhile_digits)
qed

lemma int_digits_digits:
  "list_all is_digit cs \<Longrightarrow>
   int_digits cs acc =
     Some (foldl (\<lambda>a c. a * 10 + (case digit_value c of None \<Rightarrow> 0 | Some v \<Rightarrow> v)) acc cs)"
proof (induction cs arbitrary: acc)
  case Nil
  then show ?case by simp
next
  case (Cons c cs)
  then have d: "is_digit c" and r: "list_all is_digit cs" by simp_all
  from is_digit_cases[OF d] obtain v where v: "digit_value c = Some v" by blast
  from is_digit_not_sign[OF d] have u: "c \<noteq> CHR ''_''" by simp
  show ?case using Cons.IH[OF r] v u by simp
qed

lemma int_base10_bare_numeral:
  assumes "bare_numeral s"
  shows "int_base10 s = Some (int (numeral_value s))"
proof -
  from assms obtain c cs where s: "s = c # cs" and d: "is_digit c" and r: "list_all is_digit cs"
    by (cases s) (auto simp: bare_numeral_def)
  from is_digit_cases[OF d] obtain v where v: "digit_value c = Some v" by blast
  have st: "strip s = c # cs" using strip_digits[of s] s d r by simp
  have "int_unsigned (c # cs) = Some (numeral_value s)"
    using v int_digits_digits[OF r, of v] by (simp add: int_unsigned_def numeral_value_def s)
  then show ?thesis
    using st is_digit_not_sign[OF d] by (simp add: int_base10_def)
qed

lemma bare_numeral_not_startswith:
  assumes "bare_numeral s" and "prefix \<in> set [''apfs'', ''p'', ''vss'', ''v'']"
  shows "\<not> startswith s prefix"
proof -
  from assms(1) obtain c cs where s: "s = c # cs" and d: "is_digit c"
    by (cases s) (auto simp: bare_numeral_def)
  from d have "c \<noteq> CHR ''a'' \<and> c \<noteq> CHR ''p'' \<and> c \<noteq> CHR ''v''"
    by (auto simp: is_digit_def)
  then show ?thesis using assms(2) s by (auto simp: startswith_def)
qed

text \<open>
  C7. Normalizing the result of a normalization gives that result again. An identifier
  that starts with the prefix is left as it is (and, its volume being there, is the
  result); an integer is written behind the prefix; a bare numeral string is rewritten
  to the prefix followed by its value, for each prefix the scanner uses. With prefix
  \<^verbatim>\<open>p\<close> and a volume \<^verbatim>\<open>p2\<close>: the integer 2 and the string \<^verbatim>\<open>2\<close> become \<^verbatim>\<open>p2\<close>, and \<^verbatim>\<open>p2\<close>
  stays \<^verbatim>\<open>p2\<close>.
\<close>

theorem normalization_idempotent:
  "(\<forall>vs ids prefix out.
      NormalizedVolumeIdentifiers vs (Some ids) prefix = Inr out \<longrightarrow>
      NormalizedVolumeIdentifiers vs (Some (map StrId out)) prefix = Inr out) \<and>
   (\<forall>vs prefix s v.
      startswith s prefix \<longrightarrow> GetVolumeByIdentifier vs s = Some v \<longrightarrow>
      rewrite_identifier prefix (StrId s) = s \<and>
      NormalizedVolumeIdentifiers vs (Some [StrId s]) prefix = Inr [s]) \<and>
   (\<forall>prefix n. rewrite_identifier prefix (IntId n) = prefix @ format_d n) \<and>
   (\<forall>prefix s.
      bare_numeral s \<longrightarrow> prefix \<in> set [''apfs'', ''p'', ''vss'', ''v''] \<longrightarrow>
      rewrite_identifier prefix (StrId s) = prefix @ format_d (int (numeral_value s))) \<and>
   (\<forall>vs v.
      GetVolumeByIdentifier vs ''p2'' = Some v \<longrightarrow>
      NormalizedVolumeIdentifiers vs (Some [IntId 2]) ''p'' = Inr [''p2''] \<and>
      NormalizedVolumeIdentifiers vs (Some [StrId ''2'']) ''p'' = Inr [''p2''] \<and>
      NormalizedVolumeIdentifiers vs (Some [StrId ''p2'']) ''p'' = Inr [''p2''])"
proof (intro conjI impI allI)
  fix vs ids prefix out
  assume "NormalizedVolumeIdentifiers vs (Some ids) prefix = Inr out"
  then show "NormalizedVolumeIdentifiers vs (Some (map StrId out)) prefix = Inr out"
    by (rule NormalizedVolumeIdentifiers_idempotent)
next
  fix vs :: volume_system and prefix s v
  assume a: "startswith s prefix" and b: "GetVolumeByIdentifier vs s = Some v"
  from a show "rewrite_identifier prefix (StrId s) = s" by simp
  with b show "NormalizedVolumeIdentifiers vs (Some [StrId s]) prefix = Inr [s]"
    by (simp add: NormalizedVolumeIdentifiers_def del: rewrite_identifier.simps)
next
  fix prefix n show "rewrite_identifier prefix (IntId n) = prefix @ format_d n" by simp
next
  fix prefix s
  assume "bare_numeral s" and "prefix \<in> set [''apfs'', ''p'', ''vss'', ''v'']"
  then show "rewrite_identifier prefix (StrId s) = prefix @ format_d (int (numeral_value s))"
    using bare_numeral_not_startswith[of s prefix] int_base10_bare_numeral[of s] by simp
next
  fix vs :: volume_system and v assume b: "GetVolumeByIdentifier vs ''p2'' = Some v"
  then show "NormalizedVolumeIdentifiers vs (Some [IntId 2]) ''p'' = Inr [''p2'']"
    and "NormalizedVolumeIdentifiers vs (Some [StrId ''2'']) ''p'' = Inr [''p2'']"
    and "NormalizedVolumeIdentifiers vs (Some [StrId ''p2'']) ''p'' = Inr [''p2'']"
    by (simp_all add: NormalizedVolumeIdentifiers_def ex_rewrite del: rewrite_identifier.simps)
qed

theorem normalization_idempotent_witness:
  "NormalizedVolumeIdentifiers (ex_volume_system [''p1'', ''p2''])
      (Some [IntId 2, StrId ''1'', StrId ''p2'']) ''p'' = Inr [''p2'', ''p1'', ''p2''] \<and>
   NormalizedVolumeIdentifiers (ex_volume_system [''p1'', ''p2''])
      (Some (map StrId [''p2'', ''p1'', ''p2''])) ''p'' = Inr [''p2'', ''p1'', ''p2''] \<and>
   bare_numeral ''007'' \<and> numeral_value ''007'' = 7 \<and>
   rewrite_identifier ''vss'' (StrId ''007'') = ''vss7'' \<and>
   NormalizedVolumeIdentifiers (ex_volume_system [''p1'', ''p2'']) (Some [IntId 2]) ''p'' =
     Inr [''p2'']"
proof -
  let ?vs = "ex_volume_system [''p1'', ''p2'']"
  have e: "rewrite_identifier ''p'' (StrId ''1'') = ''p1''"
    by (simp add: startswith_def int_base10_def strip_def isspace_def
      int_unsigned_def digit_value_def format_d_def digit_char_def)
  have a: "NormalizedVolumeIdentifiers ?vs (Some [IntId 2, StrId ''1'', StrId ''p2'']) ''p'' =
      Inr [''p2'', ''p1'', ''p2'']"
    by (simp add: NormalizedVolumeIdentifiers_def ex_volume_system_def ex_rewrite e Let_def
        del: rewrite_identifier.simps)
  have b: "NormalizedVolumeIdentifiers ?vs (Some (map StrId [''p2'', ''p1'', ''p2''])) ''p'' =
      Inr [''p2'', ''p1'', ''p2'']"
    using normalization_idempotent [THEN conjunct1, rule_format, OF a] .
  have n: "bare_numeral ''007''" by (simp add: bare_numeral_def is_digit_def)
  have nv: "numeral_value ''007'' = 7" by (simp add: numeral_value_def digit_value_def)
  have c: "rewrite_identifier ''vss'' (StrId ''007'') = ''vss7''"
    using normalization_idempotent
      [THEN conjunct2, THEN conjunct2, THEN conjunct2, THEN conjunct1, rule_format,
       of "''007''" "''vss''"] n nv
    by (simp add: format_d_def digit_char_def del: rewrite_identifier.simps)
  have d: "NormalizedVolumeIdentifiers ?vs (Some [IntId 2]) ''p'' = Inr [''p2'']"
    using normalization_idempotent
      [THEN conjunct2, THEN conjunct2, THEN conjunct2, THEN conjunct2, rule_format,
       of ?vs "Volume ''p2''"]
    by (simp add: ex_volume_system_def)
  from a b n nv c d show ?thesis by simp
qed

section \<open>The scan of a volume\<close>

text \<open>\<open>ScanVolume\<close> is unfolded one call at a time.\<close>

declare ScanVolume.simps [simp del]

lemma ScanVolumeUnlocked_vshadow:
  assumes "\<not> IsVolumeSystemRoot (nodes (ctx st) n)"
    and "\<not> IsFileSystem (nodes (ctx st) n)"
    and "node_type_indicator (nodes (ctx st) n) = TYPE_INDICATOR_VSHADOW"
  shows "ScanVolumeUnlocked self_ScanVolume fuel env n st =
     Some (Inr (), st\<lparr>base_path_specs := base_path_specs st @
        [NewPathSpec TYPE_INDICATOR_TSK ''/'' (path_spec (nodes (ctx st) n))]\<rparr>)"
  using assms by (simp add: ScanVolumeUnlocked_def)

lemma ScanVolume_not_locked:
  assumes "path_spec (nodes (ctx st) n) = Some ps"
    and "\<not> IsLockedScanNode (ctx st) (Some ps)"
  shows "ScanVolume (Suc fuel) env (Some n) st =
     ScanVolumeUnlocked (ScanVolume fuel env) fuel env n st"
  using assms by (simp add: ScanVolume.simps ScanVolumeBody_def)

lemma ScanVolume_snapshot:
  assumes "is_snapshot_node (ctx st) n"
  shows "ScanVolume (Suc fuel) env (Some n) st =
     Some (Inr (), st\<lparr>base_path_specs := base_path_specs st @
        [NewPathSpec TYPE_INDICATOR_TSK ''/'' (path_spec (nodes (ctx st) n))]\<rparr>)"
proof -
  from assms obtain ps where ps: "path_spec (nodes (ctx st) n) = Some ps"
    by (auto simp: is_snapshot_node_def)
  with assms have nl: "\<not> IsLockedScanNode (ctx st) (Some ps)"
    by (simp add: is_snapshot_node_def)
  show ?thesis
    using assms
    by (simp add: ScanVolume_not_locked[OF ps nl] ScanVolumeUnlocked_vshadow is_snapshot_node_def)
qed

text \<open>
  C9. On a node whose type indicator is VSHADOW and which is neither a volume system
  root nor a file system, the part of \<^verbatim>\<open>_ScanVolume\<close> after the lock check appends one
  path specification, of type TSK at location \<^verbatim>\<open>/\<close> with the node's path specification as
  parent, and changes nothing else: the scan context and the trace stay as they are,
  so no scan and no mediator call happens. For a node that is not locked this is the
  whole of \<^verbatim>\<open>_ScanVolume\<close>, with any fuel above zero.
\<close>

theorem vshadow_node_yields_tsk_path_spec:
  assumes "path_spec (nodes (ctx st) n) = Some ps"
    and "\<not> IsVolumeSystemRoot (nodes (ctx st) n)"
    and "\<not> IsFileSystem (nodes (ctx st) n)"
    and "node_type_indicator (nodes (ctx st) n) = TYPE_INDICATOR_VSHADOW"
  shows
    "(\<forall>self_ScanVolume.
        ScanVolumeUnlocked self_ScanVolume fuel env n st =
          Some (Inr (), st\<lparr>base_path_specs := base_path_specs st @
             [PathSpec TYPE_INDICATOR_TSK (Some ''/'') (Some ps)]\<rparr>)) \<and>
     (\<not> IsLockedScanNode (ctx st) (Some ps) \<longrightarrow>
        ScanVolume (Suc fuel) env (Some n) st =
          Some (Inr (), st\<lparr>base_path_specs := base_path_specs st @
             [PathSpec TYPE_INDICATOR_TSK (Some ''/'') (Some ps)]\<rparr>))"
  using assms
  by (simp add: ScanVolume_not_locked ScanVolumeUnlocked_vshadow NewPathSpec_def)

lemma ex_vss_context_node1:
  "nodes ex_vss_context 1 = ex_node (ex_vss_path_spec ''/vss1'') False False []"
  "nodes ex_vss_context (Suc 0) = ex_node (ex_vss_path_spec ''/vss1'') False False []"
  "nodes ex_vss_context 2 = ex_node (ex_vss_path_spec ''/vss2'') False False []"
  "nodes ex_vss_context 0 = ex_node ex_vss_root_path_spec True False [1, 2]"
  "locked_scan_nodes ex_vss_context = {}"
  by (simp_all add: ex_vss_context_def)

theorem vshadow_node_yields_tsk_path_spec_witness:
  "ScanVolume 1 (ex_env (ex_volume_system []) None ex_vss_context) (Some 1)
      \<lparr>ctx = ex_vss_context, base_path_specs = [], trace = []\<rparr> =
    Some (Inr (), \<lparr>ctx = ex_vss_context,
      base_path_specs =
        [PathSpec TYPE_INDICATOR_TSK (Some ''/'') (Some (ex_vss_path_spec ''/vss1''))],
      trace = []\<rparr>)"
  using vshadow_node_yields_tsk_path_spec
    [of "\<lparr>ctx = ex_vss_context, base_path_specs = [], trace = []\<rparr>" 1
        "ex_vss_path_spec ''/vss1''" 0 "ex_env (ex_volume_system []) None ex_vss_context"]
  by (simp add: ex_vss_context_node1 ex_node_def ex_vss_path_spec_def IsLockedScanNode_def)





text \<open>
  C4. For a source path that is not empty and exists (or is a device path), whose
  scan succeeds with a source type that is neither storage media device nor storage
  media image and with a root scan node, \<^verbatim>\<open>GetBasePathSpecs\<close> returns the list holding
  the root node's path specification and nothing else, with any fuel. The only call
  to a collaborator is the scan: no volume system is opened and no mediator is called.
\<close>

theorem plain_source_yields_root_path_spec:
  assumes "source_path \<noteq> []"
    and "startswith source_path device_path_prefix \<or> path_exists env source_path"
    and "Scan env (OpenSourcePath env source_path) None = Inr scan_context"
    and "source_type scan_context \<noteq> Some SOURCE_TYPE_STORAGE_MEDIA_DEVICE"
    and "source_type scan_context \<noteq> Some SOURCE_TYPE_STORAGE_MEDIA_IMAGE"
    and "GetRootScanNode scan_context = Some root"
  shows "\<exists>tr. GetBasePathSpecs fuel env source_path =
       Some (Inr [path_spec (nodes scan_context root)], tr) \<and>
     tr = [EvScan None] \<and>
     filter is_volume_system_event tr = [] \<and> mediator_calls tr = []"
  using assms by (auto simp: GetBasePathSpecs_def mediator_calls_def)

theorem plain_source_yields_root_path_spec_witness:
  "GetBasePathSpecs 0 (ex_env (ex_volume_system [''p1'', ''p2'']) None ex_file_context)
      ''/file'' = Some (Inr [Some ex_os_path_spec], [EvScan None])"
  using plain_source_yields_root_path_spec
    [of "''/file''" "ex_env (ex_volume_system [''p1'', ''p2'']) None ex_file_context"
        ex_file_context 0 0]
  by (simp add: ex_env_def ex_file_context_def ex_node_def)

section \<open>Shadow stores\<close>

lemma ScanVolumeIdentifiers_snapshots:
  "\<forall>volume_identifier \<in> set ids. has_snapshot_node (ctx st) n volume_identifier \<Longrightarrow>
   ScanVolumeIdentifiers (ScanVolume (Suc fuel) env) n ids st =
     Some (Inr (), st\<lparr>base_path_specs := base_path_specs st @
        map (snapshot_base_path_spec (ctx st) n) ids\<rparr>)"
proof (induction ids arbitrary: st)
  case Nil
  then show ?case by simp
next
  case (Cons volume_identifier rest)
  from Cons.prems obtain k
    where k: "GetSubNodeByLocation (ctx st) n (''/'' @ volume_identifier) = Some k"
      and s: "is_snapshot_node (ctx st) k"
    by (auto simp: has_snapshot_node_def split: option.splits)
  let ?st1 = "st\<lparr>base_path_specs := base_path_specs st @
        [NewPathSpec TYPE_INDICATOR_TSK ''/'' (path_spec (nodes (ctx st) k))]\<rparr>"
  have step: "ScanVolume (Suc fuel) env (Some k) st = Some (Inr (), ?st1)"
    using s by (rule ScanVolume_snapshot)
  have "\<forall>v \<in> set rest. has_snapshot_node (ctx ?st1) n v"
    using Cons.prems by simp
  from Cons.IH[OF this]
  have "ScanVolumeIdentifiers (ScanVolume (Suc fuel) env) n rest ?st1 =
      Some (Inr (), ?st1\<lparr>base_path_specs := base_path_specs ?st1 @
        map (snapshot_base_path_spec (ctx ?st1) n) rest\<rparr>)" .
  then show ?case
    using k step by (simp add: snapshot_base_path_spec_def)
qed

text \<open>
  On a shadow store root, \<^verbatim>\<open>_ScanVolumeSystemRoot\<close> reverses the selected and normalized
  store identifiers before it scans the sub nodes: where every selected identifier has
  a snapshot sub node, the base path specifications appended are those of the
  identifiers in reverse order. When the mediator keeps the order of the list the
  source scanner handed it (it returns the identifiers of that list that satisfy some
  criterion, each with the prefix), the stores are scanned in the reverse of that list.
\<close>

lemma ScanVolumeSystemRoot_vshadow_reversed:
  assumes "path_spec (nodes (ctx st) n) = Some ps"
    and "node_type_indicator (nodes (ctx st) n) = TYPE_INDICATOR_VSHADOW"
    and "GetVSSStoreIdentifiers env (Some (nodes (ctx st) n)) (trace st) =
           (Inr volume_identifiers, tr)"
    and "\<forall>volume_identifier \<in> set volume_identifiers.
           has_snapshot_node (ctx st) n volume_identifier"
  shows
    "ScanVolumeSystemRoot (ScanVolume (Suc fuel) env) env (Some n) st =
       Some (Inr (), st\<lparr>trace := tr, base_path_specs := base_path_specs st @
          map (snapshot_base_path_spec (ctx st) n) (rev volume_identifiers)\<rparr>) \<and>
     (\<forall>vs m P. OpenVolumeSystem env VShadowVolumeSystem ps = Inr vs \<longrightarrow>
        env_mediator env = Some m \<longrightarrow>
        med_GetVSSStoreIdentifiers m vs (GetVolumeIdentifiers vs) =
          Inr (Some (map StrId (filter P (GetVolumeIdentifiers vs)))) \<longrightarrow>
        (\<forall>i \<in> set (GetVolumeIdentifiers vs). startswith i ''vss'') \<longrightarrow>
        rev volume_identifiers = filter P (rev (GetVolumeIdentifiers vs)))"
proof (intro conjI impI allI)
  have "\<forall>v \<in> set (rev volume_identifiers). has_snapshot_node (ctx (st\<lparr>trace := tr\<rparr>)) n v"
    using assms(4) by simp
  from ScanVolumeIdentifiers_snapshots[OF this, of fuel env]
  show "ScanVolumeSystemRoot (ScanVolume (Suc fuel) env) env (Some n) st =
       Some (Inr (), st\<lparr>trace := tr, base_path_specs := base_path_specs st @
          map (snapshot_base_path_spec (ctx st) n) (rev volume_identifiers)\<rparr>)"
    using assms(1,2,3) by (simp add: ScanVolumeSystemRoot_def)
next
  fix vs m P
  assume o: "OpenVolumeSystem env VShadowVolumeSystem ps = Inr vs"
    and m: "env_mediator env = Some m"
    and sel: "med_GetVSSStoreIdentifiers m vs (GetVolumeIdentifiers vs) =
          Inr (Some (map StrId (filter P (GetVolumeIdentifiers vs))))"
    and pre: "\<forall>i \<in> set (GetVolumeIdentifiers vs). startswith i ''vss''"
  have v: "valid_path_spec (Some (nodes (ctx st) n)) = Some ps"
    using assms(1) by (simp add: valid_path_spec_def)
  have "\<forall>i \<in> set (filter P (GetVolumeIdentifiers vs)).
      rewrite_identifier ''vss'' (StrId i) = i"
    using pre by simp
  then have "map (\<lambda>i. rewrite_identifier ''vss'' (StrId i))
      (filter P (GetVolumeIdentifiers vs)) = filter P (GetVolumeIdentifiers vs)"
    by (intro map_idI) (simp del: rewrite_identifier.simps)
  then have same: "map (rewrite_identifier ''vss'')
      (map StrId (filter P (GetVolumeIdentifiers vs))) = filter P (GetVolumeIdentifiers vs)"
    by (simp add: comp_def del: rewrite_identifier.simps)
  have "volume_identifiers = filter P (GetVolumeIdentifiers vs)"
  proof (cases "GetVolumeIdentifiers vs = []")
    case True
    then show ?thesis using assms(3) by (simp add: GetVSS_unfold[OF v o])
  next
    case False
    then have "normalized_or_scanner_error vs ''vss''
        (map StrId (filter P (GetVolumeIdentifiers vs))) = Inr volume_identifiers"
      using assms(3) m sel by (simp add: GetVSS_unfold[OF v o] select_and_normalize_simps)
    then show ?thesis
      using same
      by (simp add: normalized_or_scanner_error_def split: option.splits
          del: rewrite_identifier.simps)
  qed
  then show "rev volume_identifiers = filter P (rev (GetVolumeIdentifiers vs))"
    by (simp add: rev_filter)
qed

text \<open>
  C6. The scanner reverses the selected shadow store identifiers so that, in the words
  of the comment in \<^verbatim>\<open>_ScanVolumeSystemRoot\<close>, the stores are processed "starting with the
  most recent one". What it reverses is the list the source scanner handed it, and for
  a store with ten snapshots that list is not in the order of discovery. With the
  mediator selecting all ten, \<^verbatim>\<open>GetBasePathSpecs\<close> yields the snapshots in the order
  \<^verbatim>\<open>vss9\<close>, ..., \<^verbatim>\<open>vss2\<close>, \<^verbatim>\<open>vss10\<close>, \<^verbatim>\<open>vss1\<close>. The reverse of the order of discovery is
  \<^verbatim>\<open>vss10\<close>, \<^verbatim>\<open>vss9\<close>, ..., \<^verbatim>\<open>vss1\<close>: the most recent snapshot is scanned ninth, not
  first.
\<close>

theorem ten_stores_not_scanned_most_recent_first:
  "GetBasePathSpecs 2
      (ex_env (ex_volume_system ex_ten_stores_reported)
         (Some (ex_mediator (Inr (Some (map StrId ex_ten_stores_reported)))))
         ex_ten_stores_context)
      ''/image.raw'' =
     Some (Inr (map ex_snapshot_base
                 [''vss9'', ''vss8'', ''vss7'', ''vss6'', ''vss5'', ''vss4'', ''vss3'', ''vss2'',
                  ''vss10'', ''vss1'']),
           [EvScan None, EvOpenVolumeSystem VShadowVolumeSystem ex_vss_root_path_spec,
            EvGetVSSStoreIdentifiers ex_ten_stores_reported]) \<and>
   rev ex_ten_stores_discovered =
     [''vss10'', ''vss9'', ''vss8'', ''vss7'', ''vss6'', ''vss5'', ''vss4'', ''vss3'', ''vss2'',
      ''vss1''] \<and>
   map ex_snapshot_base
     [''vss9'', ''vss8'', ''vss7'', ''vss6'', ''vss5'', ''vss4'', ''vss3'', ''vss2'',
      ''vss10'', ''vss1''] \<noteq>
   map ex_snapshot_base (rev ex_ten_stores_discovered)"
proof -
  let ?ids = ex_ten_stores_reported
  let ?vs = "ex_volume_system ?ids"
  let ?env = "ex_env ?vs (Some (ex_mediator (Inr (Some (map StrId ?ids))))) ex_ten_stores_context"
  let ?st = "\<lparr>ctx = ex_ten_stores_context, base_path_specs = [], trace = [EvScan None]\<rparr>"
  let ?tr = "[EvScan None, EvOpenVolumeSystem VShadowVolumeSystem ex_vss_root_path_spec,
              EvGetVSSStoreIdentifiers ?ids]"
  let ?order = "[''vss9'', ''vss8'', ''vss7'', ''vss6'', ''vss5'', ''vss4'', ''vss3'', ''vss2'',
                 ''vss10'', ''vss1'']"
  have n0: "nodes ex_ten_stores_context 0 =
      ex_node ex_vss_root_path_spec True False [1, 2, 3, 4, 5, 6, 7, 8, 9, 10]"
    and lk: "locked_scan_nodes ex_ten_stores_context = {}"
    and rt: "GetRootScanNode ex_ten_stores_context = Some 0"
    and sty: "source_type ex_ten_stores_context = Some SOURCE_TYPE_STORAGE_MEDIA_IMAGE"
    by (simp_all add: ex_ten_stores_context_def)
  let ?m = "ex_mediator (Inr (Some (map StrId ?ids)))"
  have p: "path_spec (nodes (ctx ?st) 0) = Some ex_vss_root_path_spec"
    by (simp add: n0 ex_node_def)
  have ti: "node_type_indicator (nodes (ctx ?st) 0) = TYPE_INDICATOR_VSHADOW"
    by (simp add: n0 ex_node_def ex_vss_root_path_spec_def)
  have rw: "map (rewrite_identifier ''vss'') (map StrId ?ids) = ?ids"
    by (simp add: ex_ten_stores_reported_def startswith_def)
  have res: "\<forall>x \<in> set (map StrId ?ids). \<not> missing_volume ?vs ''vss'' x"
    by (simp add: ex_ten_stores_reported_def missing_volume_def ex_volume_system_def
        startswith_def)
  then have fnd: "find (missing_volume ?vs ''vss'') (map StrId ?ids) = None"
    by (simp add: find_None_iff del: set_map)
  have nz: "normalized_or_scanner_error ?vs ''vss'' (map StrId ?ids) = Inr ?ids"
    using fnd rw by (simp add: normalized_or_scanner_error_def)
  have gi: "GetVolumeIdentifiers ?vs = ?ids"
    by (simp add: ex_volume_system_def)
  have ne: "?ids \<noteq> []"
    by (simp add: ex_ten_stores_reported_def)
  have em: "env_mediator ?env = Some ?m"
    by (simp add: ex_env_def)
  have sel: "med_GetVSSStoreIdentifiers ?m ?vs ?ids = Inr (Some (map StrId ?ids))"
    by (simp add: ex_mediator_def)
  have v: "valid_path_spec (Some (nodes (ctx ?st) 0)) = Some ex_vss_root_path_spec"
    by (simp add: valid_path_spec_def n0 ex_node_def)
  have o: "OpenVolumeSystem ?env VShadowVolumeSystem ex_vss_root_path_spec = Inr ?vs"
    by (simp add: ex_env_def)
  have g: "GetVSSStoreIdentifiers ?env (Some (nodes (ctx ?st) 0)) (trace ?st) = (Inr ?ids, ?tr)"
    unfolding GetVSS_unfold[OF v o] gi
    using ne em sel nz by (simp add: select_and_normalize_simps)
  have sub: "map (GetSubNodeByLocation ex_ten_stores_context 0)
        [''/vss1'', ''/vss2'', ''/vss3'', ''/vss4'', ''/vss5'', ''/vss6'', ''/vss7'', ''/vss8'',
         ''/vss9'', ''/vss10''] =
      [Some 1, Some 2, Some 3, Some 4, Some 5, Some 6, Some 7, Some 8, Some 9, Some 10]"
    by (simp add: GetSubNodeByLocation_def ex_ten_stores_context_def
        ex_ten_stores_discovered_def ex_node_def ex_vss_path_spec_def)
  have snap: "list_all (is_snapshot_node ex_ten_stores_context) [1, 2, 3, 4, 5, 6, 7, 8, 9, 10]"
    by (simp add: is_snapshot_node_def ex_ten_stores_context_def ex_node_def
        ex_vss_path_spec_def IsLockedScanNode_def)
  have h: "\<forall>volume_identifier \<in> set ?ids. has_snapshot_node (ctx ?st) 0 volume_identifier"
    using sub snap by (simp add: ex_ten_stores_reported_def has_snapshot_node_def)
  have b: "map (snapshot_base_path_spec ex_ten_stores_context 0) (rev ?ids) =
      map (\<lambda>i. PathSpec TYPE_INDICATOR_TSK (Some ''/'') (Some (ex_vss_path_spec (''/'' @ i))))
        ?order"
    using sub
    by (simp add: ex_ten_stores_reported_def snapshot_base_path_spec_def NewPathSpec_def
        ex_ten_stores_context_def ex_ten_stores_discovered_def ex_node_def)
  from ScanVolumeSystemRoot_vshadow_reversed [OF p ti g h, of 0, THEN conjunct1]
  have a: "ScanVolumeSystemRoot (ScanVolume (Suc 0) ?env) ?env (Some 0) ?st =
      Some (Inr (), \<lparr>ctx = ex_ten_stores_context,
        base_path_specs =
          map (\<lambda>i. PathSpec TYPE_INDICATOR_TSK (Some ''/'') (Some (ex_vss_path_spec (''/'' @ i))))
            ?order,
        trace = ?tr\<rparr>)"
    using b by simp
  have nl: "\<not> IsLockedScanNode ex_ten_stores_context (Some ex_vss_root_path_spec)"
    by (simp add: IsLockedScanNode_def lk)
  have top: "ScanVolume (Suc (Suc 0)) ?env (Some 0) ?st =
      Some (Inr (), \<lparr>ctx = ex_ten_stores_context,
        base_path_specs =
          map (\<lambda>i. PathSpec TYPE_INDICATOR_TSK (Some ''/'') (Some (ex_vss_path_spec (''/'' @ i))))
            ?order,
        trace = ?tr\<rparr>)"
    using a nl
    by (simp add: ScanVolume.simps(2)[of "Suc 0"] ScanVolumeBody_def ScanVolumeUnlocked_def
        n0 ex_node_def)
  have fd: "first_decision_node (Suc (Suc 0)) ex_ten_stores_context 0 = Some 0"
    by (simp add: n0 ex_node_def)
  have c: "GetBasePathSpecs (Suc (Suc 0)) ?env ''/image.raw'' =
      Some (Inr (map ex_snapshot_base ?order), ?tr)"
    using top fd
    by (simp add: GetBasePathSpecs_def ex_env_def rt sty n0 ex_node_def ex_vss_root_path_spec_def
        scan_outcome_def ex_snapshot_base_def del: first_decision_node.simps)
  have d: "rev ex_ten_stores_discovered =
     [''vss10'', ''vss9'', ''vss8'', ''vss7'', ''vss6'', ''vss5'', ''vss4'', ''vss3'', ''vss2'',
      ''vss1'']"
    by (simp add: ex_ten_stores_discovered_def)
  have e: "map ex_snapshot_base ?order \<noteq> map ex_snapshot_base (rev ex_ten_stores_discovered)"
    unfolding d by (simp add: ex_snapshot_base_def ex_vss_path_spec_def)
  from c d e show ?thesis by (simp only: numeral_2_eq_2 simp_thms)
qed

end
